theory Spec2Isabelle
  imports Main
begin

section \<open>Shared data model\<close>

text \<open>
  The proxy keeps its pool state in module-level globals of \<^verbatim>\<open>app.py\<close>.  Here each
  function takes the state it reads and returns the state it leaves.  A \<^verbatim>\<open>datetime\<close>
  is an integer count of seconds, so \<^verbatim>\<open>now + timedelta(seconds=s)\<close> is \<open>now + s\<close>;
  a \<^verbatim>\<open>print\<close> is not part of the state and is left out.
\<close>

type_synonym timestamp = int

datatype py_exception = AttributeError | TypeError | KeyError | IndexError

text \<open>
  One value of \<^verbatim>\<open>api_status\<close> / \<^verbatim>\<open>codex_api_status\<close>:
  \<^verbatim>\<open>{"status": "normal", "error_count": 0, "cooldown_until": None}\<close>.
\<close>

record status_rec =
  status :: string
  error_count :: int
  cooldown_until :: "timestamp option"

type_synonym status_dict = "int \<rightharpoonup> status_rec"

definition fresh_status :: status_rec where
  "fresh_status = \<lparr>status = ''normal'', error_count = 0, cooldown_until = None\<rparr>"

text \<open>
  One entry of \<^verbatim>\<open>API_CONFIGS\<close> / \<^verbatim>\<open>CODEX_CONFIGS\<close> (the enabled entries of the
  configuration store, in configuration order).  The code reads \<^verbatim>\<open>name\<close>,
  \<^verbatim>\<open>base_url\<close> and \<^verbatim>\<open>key\<close> by subscript, and the store fills in the name when an
  entry is added.  The other fields are read with \<^verbatim>\<open>cfg.get\<close>, and the record holds
  what the call returns: \<open>cfg_type\<close> is \<^verbatim>\<open>cfg.get("type")\<close>, \<open>cfg_enabled\<close> is
  \<^verbatim>\<open>cfg.get("enabled", True)\<close> and \<open>cfg_time_enabled\<close> is the truth value of each
  element of \<^verbatim>\<open>cfg.get("time_enabled", [1, 1, 1, 1, 1, 1, 1])\<close> (the empty list also
  for a value that is false as a whole, which the availability check skips).
\<close>

record upstream_config =
  cfg_name :: string
  cfg_base_url :: string
  cfg_key :: string
  cfg_type :: "string option"
  cfg_enabled :: bool
  cfg_time_enabled :: "bool list"

text \<open>
  The globals of one pool.  The messages pool uses \<^verbatim>\<open>API_CONFIGS\<close>, \<^verbatim>\<open>api_status\<close>,
  \<^verbatim>\<open>current_config_index\<close>, \<^verbatim>\<open>is_using_backup\<close>, \<^verbatim>\<open>backup_start_time\<close>,
  \<^verbatim>\<open>last_primary_check_time\<close> and \<^verbatim>\<open>last_primary_switch_time\<close>; the responses pool
  uses the same names with the prefix \<^verbatim>\<open>codex_\<close> and has no
  \<^verbatim>\<open>last_primary_switch_time\<close>.
\<close>

record pool_state =
  configs :: "upstream_config list"
  api_status :: status_dict
  current_config_index :: int
  is_using_backup :: bool
  backup_start_time :: "timestamp option"
  last_primary_check_time :: "timestamp option"
  last_primary_switch_time :: timestamp

text \<open>
  \<^verbatim>\<open>xs[i]\<close> as Python reads it: from the front for \<open>0 \<le> i < len(xs)\<close>, from the back for
  \<open>-len(xs) \<le> i < 0\<close>, and \<^verbatim>\<open>IndexError\<close> anywhere else.
\<close>

definition py_index :: "'a list \<Rightarrow> int \<Rightarrow> py_exception + 'a" where
  "py_index xs i =
     (if 0 \<le> i \<and> i < int (length xs) then Inr (xs ! nat i)
      else if i < 0 \<and> - int (length xs) \<le> i then Inr (xs ! nat (int (length xs) + i))
      else Inl IndexError)"

section \<open>Error recording\<close>

text \<open>\<^verbatim>\<open>_init_status_dict\<close>: one fresh record per index of the pool.\<close>

definition init_status_dict :: "upstream_config list \<Rightarrow> status_dict" where
  "init_status_dict cs = (\<lambda>i. if 0 \<le> i \<and> i < int (length cs) then Some fresh_status else None)"

text \<open>The two messages \<^verbatim>\<open>_record_error_core\<close> can build, by their parameters.\<close>

datatype error_msg =
    CooldownSet string string int int timestamp
  | ErrorCounted string string int int

text \<open>
  \<^verbatim>\<open>_record_error_core\<close>.  The status dictionary is mutated before the message is
  formatted, so the \<^verbatim>\<open>IndexError\<close> of \<^verbatim>\<open>configs[api_index]\<close> leaves the new counter
  in place: the result is the new dictionary and either the error or the message.
  \<open>now\<close> is \<^verbatim>\<open>datetime.now()\<close> and \<open>cooldown_seconds\<close> is
  \<^verbatim>\<open>TimeoutConfig.get_api_cooldown_seconds()\<close>.
\<close>

definition record_error_core ::
  "int \<Rightarrow> int \<Rightarrow> bool \<Rightarrow> status_dict \<Rightarrow> upstream_config list \<Rightarrow> int \<Rightarrow> string \<Rightarrow>
   timestamp \<Rightarrow> int \<Rightarrow> status_dict \<times> (py_exception + error_msg)" where
  "record_error_core api_index error_code silent status_dict cs threshold config_type_name
     now cooldown_seconds =
     (let sd1 = (case status_dict api_index of
                   None \<Rightarrow> status_dict(api_index \<mapsto> fresh_status)
                 | Some r \<Rightarrow> status_dict);
          r1 = (case sd1 api_index of None \<Rightarrow> fresh_status | Some r \<Rightarrow> r);
          r2 = r1\<lparr>error_count := error_count r1 + 1\<rparr>
      in if error_count r2 \<ge> threshold then
           (let r3 = r2\<lparr>cooldown_until := Some (now + cooldown_seconds), status := ''warning''\<rparr>;
                sd3 = sd1(api_index \<mapsto> r3)
            in (sd3, case py_index cs api_index of
                       Inl e \<Rightarrow> Inl e
                     | Inr c \<Rightarrow> Inr (CooldownSet config_type_name (cfg_name c) threshold
                                       cooldown_seconds (now + cooldown_seconds))))
         else
           (let sd2 = sd1(api_index \<mapsto> r2)
            in (sd2, case py_index cs api_index of
                       Inl e \<Rightarrow> Inl e
                     | Inr c \<Rightarrow> Inr (ErrorCounted config_type_name (cfg_name c)
                                       (error_count r2) threshold))))"

text \<open>
  The settings \<^verbatim>\<open>TimeoutConfig\<close> reads, each \<open>None\<close> when the key is missing from
  \<^verbatim>\<open>timeout_settings\<close>.
\<close>

record timeout_settings =
  api_error_threshold :: "int option"
  codex_error_threshold :: "int option"
  api_cooldown_seconds :: "int option"
  primary_api_check_interval :: "int option"
  codex_base_timeout :: "int option"
  codex_timeout_increment :: "int option"
  max_retries :: "int option"

definition get_api_error_threshold :: "timeout_settings \<Rightarrow> int" where
  "get_api_error_threshold s =
     (let threshold = (case api_error_threshold s of None \<Rightarrow> 3 | Some v \<Rightarrow> v)
      in if threshold > 0 then threshold else 1)"

definition get_codex_error_threshold :: "timeout_settings \<Rightarrow> int" where
  "get_codex_error_threshold s =
     (let threshold = (case codex_error_threshold s of None \<Rightarrow> 3 | Some v \<Rightarrow> v)
      in if threshold > 0 then threshold else 1)"

definition get_api_cooldown_seconds :: "timeout_settings \<Rightarrow> int" where
  "get_api_cooldown_seconds s = (case api_cooldown_seconds s of None \<Rightarrow> 600 | Some v \<Rightarrow> v)"

definition get_primary_api_check_interval :: "timeout_settings \<Rightarrow> int" where
  "get_primary_api_check_interval s =
     (case primary_api_check_interval s of None \<Rightarrow> 30 | Some v \<Rightarrow> v)"

definition get_codex_base_timeout :: "timeout_settings \<Rightarrow> int" where
  "get_codex_base_timeout s = (case codex_base_timeout s of None \<Rightarrow> 60 | Some v \<Rightarrow> v)"

definition get_codex_timeout_increment :: "timeout_settings \<Rightarrow> int" where
  "get_codex_timeout_increment s = (case codex_timeout_increment s of None \<Rightarrow> 60 | Some v \<Rightarrow> v)"


text \<open>
  \<^verbatim>\<open>record_api_error\<close> and \<^verbatim>\<open>record_codex_error\<close>: the core on the pool's own
  dictionary, configurations and threshold.  Both return the message; the model returns the
  pool with its new dictionary beside it.
\<close>

definition record_api_error ::
  "timeout_settings \<Rightarrow> timestamp \<Rightarrow> int \<Rightarrow> int \<Rightarrow> bool \<Rightarrow> pool_state \<Rightarrow>
   pool_state \<times> (py_exception + error_msg)" where
  "record_api_error s now api_index error_code silent st =
     (let threshold = get_api_error_threshold s;
          (sd, res) = record_error_core api_index error_code silent (api_status st) (configs st)
                        threshold ''API'' now (get_api_cooldown_seconds s)
      in (st\<lparr>api_status := sd\<rparr>, res))"

definition record_codex_error ::
  "timeout_settings \<Rightarrow> timestamp \<Rightarrow> int \<Rightarrow> int \<Rightarrow> bool \<Rightarrow> pool_state \<Rightarrow>
   pool_state \<times> (py_exception + error_msg)" where
  "record_codex_error s now api_index error_code silent st =
     (let threshold = get_codex_error_threshold s;
          (sd, res) = record_error_core api_index error_code silent (api_status st) (configs st)
                        threshold ''Codex'' now (get_api_cooldown_seconds s)
      in (st\<lparr>api_status := sd\<rparr>, res))"

section \<open>Recovery after a successful response\<close>

text \<open>
  The branch of \<^verbatim>\<open>reverse_proxy\<close> taken when \<^verbatim>\<open>upstream_resp.status_code < 400\<close>.
  For the messages pool \<^verbatim>\<open>api_status[current_api_index]\<close> is read unguarded, so a missing
  record raises \<^verbatim>\<open>KeyError\<close>; for the responses pool the read is guarded by
  \<^verbatim>\<open>current_codex_index < len(CODEX_CONFIGS) and current_codex_index in codex_api_status\<close>.
\<close>

definition reset_on_success :: "bool \<Rightarrow> pool_state \<Rightarrow> py_exception + pool_state" where
  "reset_on_success is_codex_request st =
     (let i = current_config_index st in
      if \<not> is_codex_request then
        (case api_status st i of
           None \<Rightarrow> Inl KeyError
         | Some r \<Rightarrow>
             if error_count r > 0 \<or> cooldown_until r \<noteq> None
             then Inr (st\<lparr>api_status := (api_status st)
                        (i \<mapsto> r\<lparr>error_count := 0, cooldown_until := None, status := ''normal''\<rparr>)\<rparr>)
             else Inr st)
      else
        (if i < int (length (configs st)) then
           (case api_status st i of
              None \<Rightarrow> Inr st
            | Some r \<Rightarrow>
                if error_count r > 0 \<or> cooldown_until r \<noteq> None
                then Inr (st\<lparr>api_status := (api_status st)
                           (i \<mapsto> r\<lparr>error_count := 0, cooldown_until := None, status := ''normal''\<rparr>)\<rparr>)
                else Inr st)
         else Inr st))"

text \<open>
  \<^verbatim>\<open>reset_api_cooldown\<close> / \<^verbatim>\<open>reset_codex_cooldown\<close> of the admin surface, which also
  write the dictionary: one index, or every index of the pool.
\<close>

definition reset_cooldown_one :: "int \<Rightarrow> pool_state \<Rightarrow> pool_state" where
  "reset_cooldown_one index st =
     (if 0 \<le> index \<and> index < int (length (configs st)) then
        (case api_status st index of
           None \<Rightarrow> st
         | Some r \<Rightarrow>
             if cooldown_until r \<noteq> None
             then st\<lparr>api_status := (api_status st)(index \<mapsto> fresh_status)\<rparr>
             else st)
      else st)"

definition reset_cooldown_all :: "pool_state \<Rightarrow> pool_state" where
  "reset_cooldown_all st =
     fold (\<lambda>i s. reset_cooldown_one (int i) s) [0 ..< length (configs st)] st"

text \<open>
  The state an entry has for the code that reads it: \<^verbatim>\<open>_record_error_core\<close> creates a
  missing record fresh and the availability checks treat a missing record as available.
\<close>

definition entry_state :: "status_dict \<Rightarrow> int \<Rightarrow> status_rec" where
  "entry_state sd i = (case sd i of None \<Rightarrow> fresh_status | Some r \<Rightarrow> r)"

text \<open>
  What every write of a status record keeps: the counter is never negative, and a record
  with no cooldown deadline has status \<^verbatim>\<open>"normal"\<close>.
\<close>

definition status_rec_ok :: "status_rec \<Rightarrow> bool" where
  "status_rec_ok r = (0 \<le> error_count r \<and> (cooldown_until r \<noteq> None \<or> status r = ''normal''))"

definition status_dict_ok :: "status_dict \<Rightarrow> bool" where
  "status_dict_ok sd = (\<forall>i r. sd i = Some r \<longrightarrow> status_rec_ok r)"

section \<open>Adaptive timeout of the responses pool\<close>

text \<open>
  The globals \<^verbatim>\<open>codex_timeout_extra_seconds\<close> and \<^verbatim>\<open>codex_success_count\<close>, written
  under \<^verbatim>\<open>codex_timeout_lock\<close> by \<^verbatim>\<open>stream_generator\<close>.
\<close>

record adaptive_timeout =
  codex_timeout_extra_seconds :: int
  codex_success_count :: int

text \<open>\<^verbatim>\<open>stream_total_timeout = codex_base_timeout + current_extra_seconds\<close>.\<close>

definition stream_total_timeout :: "timeout_settings \<Rightarrow> adaptive_timeout \<Rightarrow> int" where
  "stream_total_timeout s a = get_codex_base_timeout s + codex_timeout_extra_seconds a"

text \<open>
  The three places that handle a body timeout (\<^verbatim>\<open>remaining <= 0\<close>, the
  \<^verbatim>\<open>asyncio.TimeoutError\<close> of \<^verbatim>\<open>wait_for\<close>, and a native \<^verbatim>\<open>httpx.ReadTimeout\<close>)
  run the same two assignments.
\<close>

definition on_stream_timeout :: "timeout_settings \<Rightarrow> adaptive_timeout \<Rightarrow> adaptive_timeout" where
  "on_stream_timeout s a =
     a\<lparr>codex_timeout_extra_seconds := codex_timeout_extra_seconds a + get_codex_timeout_increment s,
       codex_success_count := 0\<rparr>"

text \<open>The \<^verbatim>\<open>finally\<close> block of \<^verbatim>\<open>stream_generator\<close>.\<close>

definition on_stream_finally :: "bool \<Rightarrow> bool \<Rightarrow> adaptive_timeout \<Rightarrow> adaptive_timeout" where
  "on_stream_finally is_codex_request connection_interrupted a =
     (if is_codex_request \<and> \<not> connection_interrupted then
        (if codex_timeout_extra_seconds a > 0 then
           (let a1 = a\<lparr>codex_success_count := codex_success_count a + 1\<rparr>
            in if codex_success_count a1 \<ge> 3
               then a1\<lparr>codex_timeout_extra_seconds := 0, codex_success_count := 0\<rparr>
               else a1)
         else a)
      else a)"

text \<open>
  One Codex stream as the controller sees it: it ends in a body timeout (the timeout branch
  sets \<^verbatim>\<open>connection_interrupted\<close>, so \<^verbatim>\<open>finally\<close> leaves the counters alone) or it
  completes.
\<close>

datatype stream_end = BodyTimeout | Completed

fun codex_stream :: "timeout_settings \<Rightarrow> adaptive_timeout \<Rightarrow> stream_end \<Rightarrow> adaptive_timeout" where
  "codex_stream s a BodyTimeout = on_stream_finally True True (on_stream_timeout s a)"
| "codex_stream s a Completed = on_stream_finally True False a"

section \<open>Example values\<close>

text \<open>Concrete settings, entries and pools on which the theorems below are instantiated.\<close>

definition ex_settings :: timeout_settings where
  "ex_settings = \<lparr>api_error_threshold = None, codex_error_threshold = None,
     api_cooldown_seconds = None, primary_api_check_interval = None, codex_base_timeout = None,
     codex_timeout_increment = None, max_retries = None\<rparr>"

definition ex_cfg :: "string \<Rightarrow> string option \<Rightarrow> upstream_config" where
  "ex_cfg n t = \<lparr>cfg_name = n, cfg_base_url = ''https://'' @ n, cfg_key = ''sk-'' @ n,
     cfg_type = t, cfg_enabled = True, cfg_time_enabled = replicate 7 True\<rparr>"

definition ex_pool :: "upstream_config list \<Rightarrow> status_dict \<Rightarrow> int \<Rightarrow> bool \<Rightarrow> pool_state" where
  "ex_pool cs sd i b = \<lparr>configs = cs, api_status = sd, current_config_index = i,
     is_using_backup = b, backup_start_time = None, last_primary_check_time = None,
     last_primary_switch_time = 0\<rparr>"

section \<open>Error classifier\<close>

text \<open>
  The strategy tables map a key (a decimal HTTP status, an exception kind, or
  \<^verbatim>\<open>"default"\<close>) to the name of a strategy.  \<open>stored_strategies\<close> is the value of
  \<^verbatim>\<open>error_handling_strategies\<close> in the configuration file: each of its two tables may be
  missing.
\<close>

type_synonym strategy_table = "string \<rightharpoonup> string"

record stored_strategies =
  stored_http_status_codes :: "strategy_table option"
  stored_network_errors :: "strategy_table option"

record strategies =
  http_status_codes :: strategy_table
  network_errors :: strategy_table

text \<open>\<^verbatim>\<open>default_strategies\<close> of \<^verbatim>\<open>ConfigManager.get_error_handling_strategies\<close>.\<close>

definition default_strategies :: strategies where
  "default_strategies =
     \<lparr>http_status_codes = map_of
        [(''400'', ''strategy_retry''), (''404'', ''strategy_retry''),
         (''408'', ''strategy_retry''), (''429'', ''strategy_retry''),
         (''500'', ''strategy_retry''), (''502'', ''strategy_retry''),
         (''503'', ''strategy_retry''), (''504'', ''strategy_retry''),
         (''520'', ''strategy_retry''), (''521'', ''strategy_retry''),
         (''522'', ''strategy_retry''), (''524'', ''strategy_retry''),
         (''401'', ''switch_api''), (''403'', ''switch_api''),
         (''default'', ''strategy_retry'')],
      network_errors = map_of
        [(''ReadError'', ''switch_api''), (''ConnectError'', ''switch_api''),
         (''ReadTimeout'', ''strategy_retry''), (''default'', ''switch_api'')]\<rparr>"

text \<open>
  \<^verbatim>\<open>get_error_handling_strategies\<close>: the built-in tables, each updated with the stored
  table of the same name when the configuration has one (\<^verbatim>\<open>dict.update\<close> is \<open>++\<close>).
\<close>

definition get_error_handling_strategies :: "stored_strategies \<Rightarrow> strategies" where
  "get_error_handling_strategies stored =
     \<lparr>http_status_codes =
        (case stored_http_status_codes stored of
           None \<Rightarrow> http_status_codes default_strategies
         | Some t \<Rightarrow> http_status_codes default_strategies ++ t),
      network_errors =
        (case stored_network_errors stored of
           None \<Rightarrow> network_errors default_strategies
         | Some t \<Rightarrow> network_errors default_strategies ++ t)\<rparr>"

text \<open>Python's \<^verbatim>\<open>str\<close> of an integer: its decimal digits, after a minus sign if negative.\<close>

definition digit_char :: "nat \<Rightarrow> char" where
  "digit_char d = ''0123456789'' ! d"

function str_nat :: "nat \<Rightarrow> string" where
  "str_nat n = (if n < 10 then [digit_char n] else str_nat (n div 10) @ [digit_char (n mod 10)])"
  by pat_completeness auto
termination
  by (relation "measure id") auto

definition py_str_int :: "int \<Rightarrow> string" where
  "py_str_int i = (if i < 0 then CHR ''-'' # str_nat (nat (- i)) else str_nat (nat i))"

text \<open>
  The first argument of \<^verbatim>\<open>get_error_strategy\<close>: the number of an HTTP status or the
  name of an exception kind.  \<^verbatim>\<open>str(error_code)\<close> of a string is the string.
\<close>

datatype error_code = IntCode int | StrCode string

fun py_str :: "error_code \<Rightarrow> string" where
  "py_str (IntCode n) = py_str_int n"
| "py_str (StrCode s) = s"

text \<open>
  \<^verbatim>\<open>get_error_strategy\<close>.  The network branch uses \<^verbatim>\<open>error_code\<close> itself as the key;
  the keys of the table are strings, so a number finds nothing.
\<close>

definition get_error_strategy :: "stored_strategies \<Rightarrow> error_code \<Rightarrow> string \<Rightarrow> string option" where
  "get_error_strategy stored error_code error_type =
     (let strategies = get_error_handling_strategies stored in
      if error_type = ''http_status_code'' then
        (let http_codes = http_status_codes strategies;
             strategy = http_codes (py_str error_code)
         in case strategy of None \<Rightarrow> http_codes ''default'' | Some s \<Rightarrow> Some s)
      else if error_type = ''network_error'' then
        (let net = network_errors strategies;
             strategy = (case error_code of StrCode k \<Rightarrow> net k | IntCode n \<Rightarrow> None)
         in case strategy of None \<Rightarrow> net ''default'' | Some s \<Rightarrow> Some s)
      else None)"

text \<open>\<^verbatim>\<open>TimeoutConfig.get_network_error_strategy\<close>, which the retry loop calls.\<close>

definition get_network_error_strategy :: "stored_strategies \<Rightarrow> string \<Rightarrow> string" where
  "get_network_error_strategy stored error_type =
     (case network_errors (get_error_handling_strategies stored) error_type of
        None \<Rightarrow> ''switch_api''
      | Some s \<Rightarrow> s)"

text \<open>
  The classifier as the specification words it: an outcome is an HTTP status or a transport
  error; the strategy is the exact key of the matching table, else that table's
  \<^verbatim>\<open>default\<close>, else a fixed fallback.
\<close>

datatype outcome = HttpStatus int | TransportError string

fun matching_table :: "strategies \<Rightarrow> outcome \<Rightarrow> strategy_table" where
  "matching_table t (HttpStatus n) = http_status_codes t"
| "matching_table t (TransportError k) = network_errors t"

fun exact_key :: "outcome \<Rightarrow> string" where
  "exact_key (HttpStatus n) = py_str_int n"
| "exact_key (TransportError k) = k"

fun hard_coded_fallback :: "outcome \<Rightarrow> string" where
  "hard_coded_fallback (HttpStatus n) = ''strategy_retry''"
| "hard_coded_fallback (TransportError k) = ''switch_api''"

definition classify_spec :: "strategies \<Rightarrow> outcome \<Rightarrow> string" where
  "classify_spec t out =
     (case matching_table t out (exact_key out) of
        Some s \<Rightarrow> s
      | None \<Rightarrow>
          (case matching_table t out ''default'' of
             Some s \<Rightarrow> s
           | None \<Rightarrow> hard_coded_fallback out))"

definition adaptive :: "int \<Rightarrow> int \<Rightarrow> adaptive_timeout" where
  "adaptive extra successes =
     \<lparr>codex_timeout_extra_seconds = extra, codex_success_count = successes\<rparr>"

section \<open>Request bodies and stream events as JSON\<close>

text \<open>
  A value of \<^verbatim>\<open>json.loads\<close>.  A number is a Python \<^verbatim>\<open>int\<close> (a literal with a fraction
  or an exponent is outside the model), and an object lists each of its keys once.  Strings
  are byte strings.
\<close>

datatype json =
    JNull
  | JBool bool
  | JInt int
  | JStr string
  | JArr "json list"
  | JObj "(string \<times> json) list"

text \<open>\<^verbatim>\<open>d.get(k, default)\<close> on the pairs of an object.\<close>

definition get_or :: "(string \<times> json) list \<Rightarrow> string \<Rightarrow> json \<Rightarrow> json" where
  "get_or kv k d = (case map_of kv k of None \<Rightarrow> d | Some v \<Rightarrow> v)"

text \<open>\<^verbatim>\<open>k in d\<close>.\<close>

definition has_key :: "(string \<times> json) list \<Rightarrow> string \<Rightarrow> bool" where
  "has_key kv k = (map_of kv k \<noteq> None)"

text \<open>
  \<^verbatim>\<open>str.lower\<close> on ASCII letters, and \<^verbatim>\<open>pattern in text\<close> on strings.
\<close>

definition lower_char :: "char \<Rightarrow> char" where
  "lower_char c =
     (let n = (of_char c :: nat) in if 65 \<le> n \<and> n \<le> 90 then char_of (n + 32) else c)"

definition lower :: "string \<Rightarrow> string" where
  "lower s = map lower_char s"

fun is_prefix :: "string \<Rightarrow> string \<Rightarrow> bool" where
  "is_prefix [] s = True"
| "is_prefix (p # ps) [] = False"
| "is_prefix (p # ps) (c # cs) = (p = c \<and> is_prefix ps cs)"

fun py_in :: "string \<Rightarrow> string \<Rightarrow> bool" where
  "py_in p [] = (p = [])"
| "py_in p (c # cs) = (is_prefix p (c # cs) \<or> py_in p cs)"

section \<open>Detection of OpenAI-Chat requests\<close>

text \<open>
  \<^verbatim>\<open>OpenAIToClaude._is_openai_messages_format\<close>: the loop returns \<^verbatim>\<open>False\<close> at the
  first message that is not an object and \<^verbatim>\<open>True\<close> at the first one whose content is a
  string.
\<close>

fun scan_openai_messages :: "json list \<Rightarrow> bool" where
  "scan_openai_messages [] = False"
| "scan_openai_messages (msg # rest) =
     (case msg of
        JObj kv \<Rightarrow>
          (case map_of kv ''content'' of
             Some (JStr s) \<Rightarrow> True
           | _ \<Rightarrow> scan_openai_messages rest)
      | _ \<Rightarrow> False)"

definition is_openai_messages_format :: "json \<Rightarrow> bool" where
  "is_openai_messages_format messages =
     (case messages of
        JArr ms \<Rightarrow> if length ms = 0 then False else scan_openai_messages ms
      | _ \<Rightarrow> False)"

definition is_openai_model_name :: "json \<Rightarrow> bool" where
  "is_openai_model_name model =
     (case model of
        JStr m \<Rightarrow>
          list_ex (\<lambda>pattern. py_in pattern (lower m))
            [''gpt-'', ''text-'', ''davinci'', ''curie'', ''babbage'', ''ada'']
      | _ \<Rightarrow> False)"

text \<open>\<^verbatim>\<open>OpenAIToClaude._has_claude_format_features\<close>.\<close>

definition is_claude_block :: "json \<Rightarrow> bool" where
  "is_claude_block content_block =
     (case content_block of
        JObj kv \<Rightarrow> map_of kv ''type'' = Some (JStr ''text'') \<or> map_of kv ''type'' = Some (JStr ''image'')
      | _ \<Rightarrow> False)"

definition msg_has_claude_block :: "json \<Rightarrow> bool" where
  "msg_has_claude_block msg =
     (case msg of
        JObj kv \<Rightarrow>
          (case map_of kv ''content'' of
             Some (JArr blocks) \<Rightarrow> list_ex is_claude_block blocks
           | _ \<Rightarrow> False)
      | _ \<Rightarrow> False)"

definition has_claude_format_features :: "json \<Rightarrow> bool" where
  "has_claude_format_features request_data =
     (case request_data of
        JObj kv \<Rightarrow>
          (let has_claude_fields =
                 list_ex (has_key kv) [''system'', ''anthropic_version'', ''thinking''];
               messages = get_or kv ''messages'' (JArr []);
               model = get_or kv ''model'' (JStr [])
           in if (case messages of JArr ms \<Rightarrow> list_ex msg_has_claude_block ms | _ \<Rightarrow> False)
              then True
              else if (case model of
                         JStr m \<Rightarrow> list_ex (\<lambda>pattern. py_in pattern (lower m))
                                     [''claude-'', ''anthropic'']
                       | _ \<Rightarrow> False)
              then True
              else has_claude_fields)
      | _ \<Rightarrow> False)"

text \<open>\<^verbatim>\<open>OpenAIToClaude.is_openai_request\<close>.\<close>

definition openai_specific_params :: "string list" where
  "openai_specific_params =
     [''frequency_penalty'', ''presence_penalty'', ''logit_bias'', ''best_of'', ''n'', ''user'']"

definition is_openai_request :: "json \<Rightarrow> bool" where
  "is_openai_request request_data =
     (case request_data of
        JObj kv \<Rightarrow>
          if \<not> has_key kv ''model'' \<or> \<not> has_key kv ''messages'' then False
          else
            (let has_openai_params = list_ex (has_key kv) openai_specific_params;
                 is_openai_messages = is_openai_messages_format (get_or kv ''messages'' (JArr []))
             in if is_openai_messages then True
                else
                  (let openai_indicators =
                         [is_openai_model_name (get_or kv ''model'' (JStr [])),
                          has_key kv ''temperature'' \<or> has_key kv ''top_p'',
                          has_openai_params,
                          \<not> has_claude_format_features request_data]
                   in if has_openai_params then True
                      else length (filter id openai_indicators) \<ge> 2))
      | _ \<Rightarrow> False)"

text \<open>
  The words of the specification.  A request matches the OpenAI-Chat heuristics when some
  message has a plain string as content, or an OpenAI-specific parameter is present, or the
  model name is OpenAI-style; it carries Anthropic-specific fields when it has \<^verbatim>\<open>system\<close>
  or \<^verbatim>\<open>anthropic_version\<close>, or some content block of type text or image.
\<close>

definition spec_openai_heuristics :: "json \<Rightarrow> bool" where
  "spec_openai_heuristics request_data =
     (case request_data of
        JObj kv \<Rightarrow>
          is_openai_messages_format (get_or kv ''messages'' (JArr []))
          \<or> list_ex (has_key kv) openai_specific_params
          \<or> is_openai_model_name (get_or kv ''model'' (JStr []))
      | _ \<Rightarrow> False)"

definition spec_anthropic_fields :: "json \<Rightarrow> bool" where
  "spec_anthropic_fields request_data =
     (case request_data of
        JObj kv \<Rightarrow>
          has_key kv ''system'' \<or> has_key kv ''anthropic_version''
          \<or> (case get_or kv ''messages'' (JArr []) of
                JArr ms \<Rightarrow> list_ex msg_has_claude_block ms
              | _ \<Rightarrow> False)
      | _ \<Rightarrow> False)"

text \<open>
  Three requests: plain-string content beside a \<^verbatim>\<open>system\<close> field; block content, a
  \<^verbatim>\<open>system\<close> field, an OpenAI model name and a temperature; and the native Anthropic
  request of the module's own test (case 4).
\<close>

definition req_string_content_with_system :: json where
  "req_string_content_with_system =
     JObj [(''model'', JStr ''claude-sonnet-4-20250514''),
           (''messages'', JArr [JObj [(''role'', JStr ''user''), (''content'', JStr ''hello'')]]),
           (''system'', JStr ''be brief''),
           (''max_tokens'', JInt 100)]"

definition req_blocks_gpt_temperature :: json where
  "req_blocks_gpt_temperature =
     JObj [(''model'', JStr ''gpt-4''),
           (''messages'', JArr [JObj [(''role'', JStr ''user''),
              (''content'', JArr [JObj [(''type'', JStr ''text''), (''text'', JStr ''hello'')]])]]),
           (''system'', JStr ''be brief''),
           (''temperature'', JInt 1)]"

definition req_native_anthropic :: json where
  "req_native_anthropic =
     JObj [(''model'', JStr ''claude-sonnet-4-20250514''),
           (''messages'', JArr [JObj [(''role'', JStr ''user''),
              (''content'', JArr [JObj [(''type'', JStr ''text''), (''text'', JStr ''hello'')]])]]),
           (''max_tokens'', JInt 1000),
           (''system'', JStr ''be brief'')]"

section \<open>Usage store\<close>

text \<open>
  Python's truth value of a JSON value, its reading as a number (\<^verbatim>\<open>bool\<close> is a subclass
  of \<^verbatim>\<open>int\<close>), and \<^verbatim>\<open>+\<close> and \<^verbatim>\<open>-\<close> on JSON values: numbers add and subtract,
  strings and lists concatenate, anything else raises \<^verbatim>\<open>TypeError\<close>.
\<close>

fun truthy :: "json \<Rightarrow> bool" where
  "truthy JNull = False"
| "truthy (JBool b) = b"
| "truthy (JInt n) = (n \<noteq> 0)"
| "truthy (JStr s) = (s \<noteq> [])"
| "truthy (JArr xs) = (xs \<noteq> [])"
| "truthy (JObj kv) = (kv \<noteq> [])"

fun num_of :: "json \<Rightarrow> int option" where
  "num_of (JInt n) = Some n"
| "num_of (JBool b) = Some (if b then 1 else 0)"
| "num_of j = None"

definition py_add :: "json \<Rightarrow> json \<Rightarrow> py_exception + json" where
  "py_add a b =
     (case (num_of a, num_of b) of
        (Some x, Some y) \<Rightarrow> Inr (JInt (x + y))
      | _ \<Rightarrow>
          (case (a, b) of
             (JStr s, JStr t) \<Rightarrow> Inr (JStr (s @ t))
           | (JArr s, JArr t) \<Rightarrow> Inr (JArr (s @ t))
           | _ \<Rightarrow> Inl TypeError))"

definition py_sub :: "json \<Rightarrow> json \<Rightarrow> py_exception + json" where
  "py_sub a b =
     (case (num_of a, num_of b) of
        (Some x, Some y) \<Rightarrow> Inr (JInt (x - y))
      | _ \<Rightarrow> Inl TypeError)"

text \<open>
  \<^verbatim>\<open>extract_usage_from_chunks\<close>.  The function joins the chunks, splits the text into
  lines and parses each line of the form \<^verbatim>\<open>data: ...\<close> other than \<^verbatim>\<open>data: [DONE]\<close>.
  The model starts from the lines: \<open>Some j\<close> is such a line with its parsed value, \<open>None\<close>
  is any other line or one that does not parse.  Inside the loop every exception is caught
  and the loop continues, so \<open>usage_of_line\<close> is \<open>None\<close> both when a line has no usage and
  when reading it raises.
\<close>

definition usage_of_line :: "bool \<Rightarrow> json \<Rightarrow> (string \<times> json) list option" where
  "usage_of_line is_codex_request data =
     (case data of
        JObj kv \<Rightarrow>
          if is_codex_request then
            (if map_of kv ''type'' = Some (JStr ''response.completed'') then
               (case get_or kv ''response'' (JObj []) of
                  JObj rkv \<Rightarrow>
                    (let codex_usage = get_or rkv ''usage'' (JObj []) in
                     if truthy codex_usage then
                       (case codex_usage of
                          JObj ukv \<Rightarrow>
                            (case get_or ukv ''input_tokens_details'' (JObj []) of
                               JObj dkv \<Rightarrow>
                                 (let cached_tokens = get_or dkv ''cached_tokens'' (JInt 0);
                                      total_input = get_or ukv ''input_tokens'' (JInt 0);
                                      output = get_or ukv ''output_tokens'' (JInt 0)
                                  in case py_sub total_input cached_tokens of
                                       Inl e \<Rightarrow> None
                                     | Inr new_input \<Rightarrow>
                                         (case py_add new_input output of
                                            Inl e \<Rightarrow> None
                                          | Inr s1 \<Rightarrow>
                                              (case py_add s1 cached_tokens of
                                                 Inl e \<Rightarrow> None
                                               | Inr total_sum \<Rightarrow>
                                                   Some [(''input_tokens'', new_input),
                                                         (''output_tokens'', output),
                                                         (''cache_creation_input_tokens'', JInt 0),
                                                         (''cache_read_input_tokens'', cached_tokens),
                                                         (''total_tokens'', total_sum)])))
                             | _ \<Rightarrow> None)
                        | _ \<Rightarrow> None)
                     else None)
                | _ \<Rightarrow> None)
             else None)
          else
            (case map_of kv ''usage'' of
               None \<Rightarrow> None
             | Some usage \<Rightarrow>
                 (case usage of
                    JObj ukv \<Rightarrow>
                      (let i = get_or ukv ''input_tokens'' (JInt 0);
                           out = get_or ukv ''output_tokens'' (JInt 0);
                           cc = get_or ukv ''cache_creation_input_tokens'' (JInt 0);
                           cr = get_or ukv ''cache_read_input_tokens'' (JInt 0)
                       in case py_add i out of
                            Inl e \<Rightarrow> None
                          | Inr s1 \<Rightarrow>
                              (case py_add s1 cc of
                                 Inl e \<Rightarrow> None
                               | Inr s2 \<Rightarrow>
                                   (case py_add s2 cr of
                                      Inl e \<Rightarrow> None
                                    | Inr total_sum \<Rightarrow>
                                        Some [(''input_tokens'', i),
                                              (''output_tokens'', out),
                                              (''cache_creation_input_tokens'', cc),
                                              (''cache_read_input_tokens'', cr),
                                              (''total_tokens'', total_sum)])))
                  | _ \<Rightarrow> None))
      | _ \<Rightarrow> None)"

fun extract_usage_from_chunks :: "json option list \<Rightarrow> bool \<Rightarrow> (string \<times> json) list option" where
  "extract_usage_from_chunks [] is_codex_request = None"
| "extract_usage_from_chunks (None # rest) is_codex_request =
     extract_usage_from_chunks rest is_codex_request"
| "extract_usage_from_chunks (Some data # rest) is_codex_request =
     (case usage_of_line is_codex_request data of
        Some result \<Rightarrow> Some result
      | None \<Rightarrow> extract_usage_from_chunks rest is_codex_request)"

text \<open>
  The file of \<^verbatim>\<open>TokenStatsManager\<close>, as the manager itself writes it: the six counters
  of \<^verbatim>\<open>summary\<close>, of each \<^verbatim>\<open>by_model\<close> entry and of each \<^verbatim>\<open>daily\<close> entry, the
  \<^verbatim>\<open>unique_models\<close> list, and the per-model request counts of a day.
\<close>

record counters =
  total_requests :: int
  total_tokens :: int
  total_input_tokens :: int
  total_output_tokens :: int
  total_cache_creation_tokens :: int
  total_cache_read_tokens :: int

record day_stats =
  day_counters :: counters
  day_models :: "string \<rightharpoonup> int"

record stats =
  summary :: counters
  unique_models :: "string list"
  by_model :: "string \<rightharpoonup> counters"
  daily :: "string \<rightharpoonup> day_stats"
  generated_at :: string

definition zero_counters :: counters where
  "zero_counters = \<lparr>total_requests = 0, total_tokens = 0, total_input_tokens = 0,
     total_output_tokens = 0, total_cache_creation_tokens = 0, total_cache_read_tokens = 0\<rparr>"

text \<open>\<^verbatim>\<open>_get_empty_stats_structure\<close>.\<close>

definition get_empty_stats_structure :: "string \<Rightarrow> stats" where
  "get_empty_stats_structure stamp =
     \<lparr>summary = zero_counters, unique_models = [], by_model = Map.empty, daily = Map.empty,
      generated_at = stamp\<rparr>"

text \<open>
  Step 2 of \<^verbatim>\<open>record_usage\<close>: \<^verbatim>\<open>a.get(k) or a.get(k2, 0)\<close> takes the second value when
  the first is missing or false, and the default of \<^verbatim>\<open>total_tokens\<close>, the sum of input and
  output, is computed whether or not the key is present.
\<close>

definition get_or_else :: "(string \<times> json) list \<Rightarrow> string \<Rightarrow> string \<Rightarrow> json" where
  "get_or_else ud k k2 =
     (case map_of ud k of
        Some v \<Rightarrow> if truthy v then v else get_or ud k2 (JInt 0)
      | None \<Rightarrow> get_or ud k2 (JInt 0))"

text \<open>
  The six \<^verbatim>\<open>+=\<close> on one group of counters.  A counter is an \<^verbatim>\<open>int\<close>, so adding a value
  that is not a number raises \<^verbatim>\<open>TypeError\<close>.
\<close>

definition add_usage :: "counters \<Rightarrow> json \<Rightarrow> json \<Rightarrow> json \<Rightarrow> json \<Rightarrow> json \<Rightarrow>
    py_exception + counters" where
  "add_usage c total_v input_v output_v cache_creation cache_read =
     (case (num_of total_v, num_of input_v, num_of output_v, num_of cache_creation,
            num_of cache_read) of
        (Some t, Some i, Some out, Some cc, Some cr) \<Rightarrow>
          Inr \<lparr>total_requests = total_requests c + 1,
               total_tokens = total_tokens c + t,
               total_input_tokens = total_input_tokens c + i,
               total_output_tokens = total_output_tokens c + out,
               total_cache_creation_tokens = total_cache_creation_tokens c + cc,
               total_cache_read_tokens = total_cache_read_tokens c + cr\<rparr>
      | _ \<Rightarrow> Inl TypeError)"

text \<open>
  \<^verbatim>\<open>record_usage\<close>.  \<open>store\<close> is the content of the file, \<open>None\<close> when the file does
  not exist; \<open>today\<close> and \<open>stamp\<close> are the two formatted readings of the clock.  All updates
  are made on the value read from the file and written back at the end, and the
  \<^verbatim>\<open>except\<close> clause swallows every exception: a failure leaves the file as it was.
\<close>

definition record_usage ::
  "stats option \<Rightarrow> string \<Rightarrow> (string \<times> json) list \<Rightarrow> string \<Rightarrow> string \<Rightarrow> stats option" where
  "record_usage store model usage_data today stamp =
     (let stats = (case store of Some s \<Rightarrow> s | None \<Rightarrow> get_empty_stats_structure stamp);
          input_tokens = get_or_else usage_data ''input_tokens'' ''prompt_tokens'';
          output_tokens = get_or_else usage_data ''output_tokens'' ''completion_tokens'';
          cache_creation = get_or usage_data ''cache_creation_input_tokens'' (JInt 0);
          cache_read = get_or usage_data ''cache_read_input_tokens'' (JInt 0)
      in case py_add input_tokens output_tokens of
           Inl e \<Rightarrow> store
         | Inr default_total \<Rightarrow>
            (let total_v = get_or usage_data ''total_tokens'' default_total;
                 bm = (case by_model stats model of None \<Rightarrow> zero_counters | Some c \<Rightarrow> c);
                 day = (case daily stats today of
                          None \<Rightarrow> \<lparr>day_counters = zero_counters, day_models = Map.empty\<rparr>
                        | Some d \<Rightarrow> d);
                 n = (case day_models day model of None \<Rightarrow> 0 | Some k \<Rightarrow> k)
             in case (add_usage (summary stats) total_v input_tokens output_tokens cache_creation
                        cache_read,
                      add_usage bm total_v input_tokens output_tokens cache_creation cache_read,
                      add_usage (day_counters day) total_v input_tokens output_tokens
                        cache_creation cache_read) of
                  (Inr s', Inr bm', Inr dc') \<Rightarrow>
                    Some (stats\<lparr>summary := s',
                            unique_models :=
                              (if model \<in> set (unique_models stats) then unique_models stats
                               else unique_models stats @ [model]),
                            by_model := (by_model stats)(model \<mapsto> bm'),
                            daily := (daily stats)(today \<mapsto>
                               \<lparr>day_counters = dc', day_models = (day_models day)(model \<mapsto> n + 1)\<rparr>),
                            generated_at := stamp\<rparr>)
                | _ \<Rightarrow> store))"

text \<open>
  The end of \<^verbatim>\<open>stream_generator\<close>: usage is extracted from the lines of the response and,
  when there is any, recorded.
\<close>

definition account_stream ::
  "stats option \<Rightarrow> string \<Rightarrow> json option list \<Rightarrow> bool \<Rightarrow> string \<Rightarrow> string \<Rightarrow> stats option" where
  "account_stream store model lines is_codex_request today stamp =
     (case extract_usage_from_chunks lines is_codex_request of
        None \<Rightarrow> store
      | Some usage_data \<Rightarrow> record_usage store model usage_data today stamp)"

text \<open>
  The counters an observer reads; one that is not stored yet reads as the zero it is created
  with.
\<close>

definition stats_of :: "stats option \<Rightarrow> stats" where
  "stats_of store = (case store of Some s \<Rightarrow> s | None \<Rightarrow> get_empty_stats_structure [])"

definition model_counters :: "stats option \<Rightarrow> string \<Rightarrow> counters" where
  "model_counters store m =
     (case by_model (stats_of store) m of None \<Rightarrow> zero_counters | Some c \<Rightarrow> c)"

definition daily_counters :: "stats option \<Rightarrow> string \<Rightarrow> counters" where
  "daily_counters store d =
     (case daily (stats_of store) d of None \<Rightarrow> zero_counters | Some x \<Rightarrow> day_counters x)"

definition daily_model_requests :: "stats option \<Rightarrow> string \<Rightarrow> string \<Rightarrow> int" where
  "daily_model_requests store d m =
     (case daily (stats_of store) d of
        None \<Rightarrow> 0
      | Some x \<Rightarrow> (case day_models x m of None \<Rightarrow> 0 | Some k \<Rightarrow> k))"

definition counters_le :: "counters \<Rightarrow> counters \<Rightarrow> bool" where
  "counters_le c c' =
     (total_requests c \<le> total_requests c' \<and> total_tokens c \<le> total_tokens c'
      \<and> total_input_tokens c \<le> total_input_tokens c'
      \<and> total_output_tokens c \<le> total_output_tokens c'
      \<and> total_cache_creation_tokens c \<le> total_cache_creation_tokens c'
      \<and> total_cache_read_tokens c \<le> total_cache_read_tokens c')"

definition store_le :: "stats option \<Rightarrow> stats option \<Rightarrow> bool" where
  "store_le a b =
     (counters_le (summary (stats_of a)) (summary (stats_of b))
      \<and> (\<forall>m. counters_le (model_counters a m) (model_counters b m))
      \<and> (\<forall>d. counters_le (daily_counters a d) (daily_counters b d))
      \<and> (\<forall>d m. daily_model_requests a d m \<le> daily_model_requests b d m))"

text \<open>No number in the usage data is negative.\<close>

definition usage_nonneg :: "(string \<times> json) list \<Rightarrow> bool" where
  "usage_nonneg ud = list_all (\<lambda>(k, v). case num_of v of None \<Rightarrow> True | Some n \<Rightarrow> 0 \<le> n) ud"

text \<open>
  A \<^verbatim>\<open>response.completed\<close> event of the responses upstream with the three counts the
  extraction reads, and a store that has seen one request.
\<close>

definition response_completed :: "int \<Rightarrow> int \<Rightarrow> int \<Rightarrow> json" where
  "response_completed input_n output_n cached_n =
     JObj [(''type'', JStr ''response.completed''),
           (''response'', JObj [(''usage'',
              JObj [(''input_tokens'', JInt input_n),
                    (''output_tokens'', JInt output_n),
                    (''input_tokens_details'', JObj [(''cached_tokens'', JInt cached_n)])])])]"



section \<open>Translation of Anthropic stream events\<close>

text \<open>
  One element of \<^verbatim>\<open>openai_chunk["choices"]\<close> and the chunk itself.  The chunk's
  \<^verbatim>\<open>id\<close> is \<^verbatim>\<open>"chatcmpl-"\<close> followed by the message id, which the record keeps as it
  is; \<^verbatim>\<open>object\<close>, \<^verbatim>\<open>created\<close> and \<^verbatim>\<open>model\<close> do not depend on the event.
\<close>

record choice =
  delta_role :: "string option"
  delta_content :: "json option"
  finish_reason :: "string option"

record openai_chunk =
  chunk_message_id :: json
  choices :: "choice list"

definition content_choice :: "json \<Rightarrow> choice" where
  "content_choice c = \<lparr>delta_role = None, delta_content = Some c, finish_reason = None\<rparr>"

definition role_choice :: choice where
  "role_choice = \<lparr>delta_role = Some ''assistant'', delta_content = None, finish_reason = None\<rparr>"

definition stop_choice :: choice where
  "stop_choice = \<lparr>delta_role = None, delta_content = None, finish_reason = Some ''stop''\<rparr>"

text \<open>
  The class variable \<^verbatim>\<open>_thinking_states\<close> is a dictionary from message ids to booleans.
  A list or an object cannot be a key: using one raises \<^verbatim>\<open>TypeError\<close>.  Keys are
  compared as JSON values.
\<close>

type_synonym thinking_states = "json \<rightharpoonup> bool"

fun hashable :: "json \<Rightarrow> bool" where
  "hashable (JArr xs) = False"
| "hashable (JObj kv) = False"
| "hashable j = True"

definition think_open :: string where
  "think_open = ''<think>''"

definition think_close :: string where
  "think_close = ''</think>''"

definition think_close_nl :: string where
  "think_close_nl = ''</think>'' @ [CHR 0x0A, CHR 0x0A]"

text \<open>
  \<^verbatim>\<open>OpenAIToClaude._convert_stream_chunk\<close>: the dictionary before, the event, and
  either the exception raised or the dictionary after with the chunk built.
\<close>

definition convert_stream_chunk ::
  "thinking_states \<Rightarrow> json \<Rightarrow> py_exception + (thinking_states \<times> openai_chunk)" where
  "convert_stream_chunk states claude_chunk =
     (case claude_chunk of
        JObj kv \<Rightarrow>
          (case get_or kv ''message'' (JObj []) of
             JObj mkv \<Rightarrow>
               (let message_id = get_or mkv ''id'' (JStr ''default'');
                    chunk_type = map_of kv ''type'';
                    out = (\<lambda>cs. \<lparr>chunk_message_id = message_id, choices = cs\<rparr>)
                in
                if chunk_type = Some (JStr ''message_start'') then
                  (if hashable message_id
                   then Inr (states(message_id \<mapsto> False), out [role_choice])
                   else Inl TypeError)
                else if chunk_type = Some (JStr ''content_block_start'') then
                  (case get_or kv ''content_block'' (JObj []) of
                     JObj ckv \<Rightarrow>
                       if map_of ckv ''type'' = Some (JStr ''thinking'') then
                         (if hashable message_id
                          then Inr (states(message_id \<mapsto> True),
                                    out [content_choice (JStr think_open)])
                          else Inl TypeError)
                       else if map_of ckv ''type'' = Some (JStr ''text'') then
                         (if hashable message_id then
                            (if (case states message_id of None \<Rightarrow> False | Some b \<Rightarrow> b)
                             then Inr (states(message_id \<mapsto> False),
                                       out [content_choice (JStr think_close_nl)])
                             else Inr (states, out []))
                          else Inl TypeError)
                       else Inr (states, out [])
                   | _ \<Rightarrow> Inl AttributeError)
                else if chunk_type = Some (JStr ''content_block_delta'') then
                  (case get_or kv ''delta'' (JObj []) of
                     JObj dkv \<Rightarrow>
                       if map_of dkv ''type'' = Some (JStr ''thinking_delta'') then
                         Inr (states, out [content_choice (get_or dkv ''thinking'' (JStr []))])
                       else if map_of dkv ''type'' = Some (JStr ''text_delta'') then
                         Inr (states, out [content_choice (get_or dkv ''text'' (JStr []))])
                       else Inr (states, out [])
                   | _ \<Rightarrow> Inl AttributeError)
                else if chunk_type = Some (JStr ''message_stop'') then
                  (if hashable message_id then
                     (if (case states message_id of None \<Rightarrow> False | Some b \<Rightarrow> b)
                      then Inr (states(message_id := None),
                                out [content_choice (JStr think_close), stop_choice])
                      else Inr (states(message_id := None), out [stop_choice]))
                   else Inl TypeError)
                else Inr (states, out []))
           | _ \<Rightarrow> Inl AttributeError)
      | _ \<Rightarrow> Inl AttributeError)"

text \<open>
  The stream rewriter calls the function once per event, in arrival order (through
  \<^verbatim>\<open>convert_response\<close>, for the event types \<^verbatim>\<open>message_start\<close>,
  \<^verbatim>\<open>content_block_start\<close>, \<^verbatim>\<open>content_block_delta\<close>, \<^verbatim>\<open>content_block_stop\<close>,
  \<^verbatim>\<open>message_delta\<close> and \<^verbatim>\<open>message_stop\<close>).  With several
  streams in flight the calls of the streams interleave on the one dictionary; each event is
  tagged with the stream it belongs to, and so is the chunk sent to that stream's client.
\<close>

fun convert_interleaved ::
  "thinking_states \<Rightarrow> (nat \<times> json) list \<Rightarrow>
     py_exception + (thinking_states \<times> (nat \<times> openai_chunk) list)" where
  "convert_interleaved states [] = Inr (states, [])"
| "convert_interleaved states ((k, ev) # rest) =
     (case convert_stream_chunk states ev of
        Inl e \<Rightarrow> Inl e
      | Inr (states1, chunk) \<Rightarrow>
          (case convert_interleaved states1 rest of
             Inl e \<Rightarrow> Inl e
           | Inr (states2, chunks) \<Rightarrow> Inr (states2, (k, chunk) # chunks)))"

definition convert_stream ::
  "thinking_states \<Rightarrow> json list \<Rightarrow> py_exception + (thinking_states \<times> openai_chunk list)" where
  "convert_stream states evs =
     (case convert_interleaved states (map (Pair 0) evs) of
        Inl e \<Rightarrow> Inl e
      | Inr (states1, chunks) \<Rightarrow> Inr (states1, map snd chunks))"

text \<open>The text a client assembles from the \<^verbatim>\<open>delta.content\<close> of the chunks it receives.\<close>

definition choice_text :: "choice \<Rightarrow> string" where
  "choice_text c = (case delta_content c of Some (JStr s) \<Rightarrow> s | _ \<Rightarrow> [])"

definition content_text :: "openai_chunk list \<Rightarrow> string" where
  "content_text chunks = concat (map (\<lambda>ch. concat (map choice_text (choices ch))) chunks)"

definition stream_output :: "nat \<Rightarrow> (nat \<times> openai_chunk) list \<Rightarrow> openai_chunk list" where
  "stream_output k tagged = map snd (filter (\<lambda>p. fst p = k) tagged)"

text \<open>
  The events of the Anthropic Messages stream, in the wire format of the upstream: only
  \<^verbatim>\<open>message_start\<close> carries the \<^verbatim>\<open>message\<close> object with its id.
\<close>

definition message_start :: "string \<Rightarrow> json" where
  "message_start mid =
     JObj [(''type'', JStr ''message_start''),
           (''message'', JObj [(''id'', JStr mid), (''type'', JStr ''message''),
                               (''role'', JStr ''assistant''), (''content'', JArr [])])]"

definition content_block_start :: "nat \<Rightarrow> string \<Rightarrow> json" where
  "content_block_start idx block_type =
     JObj [(''type'', JStr ''content_block_start''), (''index'', JInt (int idx)),
           (''content_block'', JObj [(''type'', JStr block_type), (block_type, JStr [])])]"

definition thinking_delta :: "nat \<Rightarrow> string \<Rightarrow> json" where
  "thinking_delta idx s =
     JObj [(''type'', JStr ''content_block_delta''), (''index'', JInt (int idx)),
           (''delta'', JObj [(''type'', JStr ''thinking_delta''), (''thinking'', JStr s)])]"

definition text_delta :: "nat \<Rightarrow> string \<Rightarrow> json" where
  "text_delta idx s =
     JObj [(''type'', JStr ''content_block_delta''), (''index'', JInt (int idx)),
           (''delta'', JObj [(''type'', JStr ''text_delta''), (''text'', JStr s)])]"

definition content_block_stop :: "nat \<Rightarrow> json" where
  "content_block_stop idx =
     JObj [(''type'', JStr ''content_block_stop''), (''index'', JInt (int idx))]"

definition message_delta :: json where
  "message_delta =
     JObj [(''type'', JStr ''message_delta''),
           (''delta'', JObj [(''stop_reason'', JStr ''end_turn'')]),
           (''usage'', JObj [(''output_tokens'', JInt 12)])]"

definition message_stop :: json where
  "message_stop = JObj [(''type'', JStr ''message_stop'')]"

text \<open>
  A message with one thinking block followed by one text block, and a message with one text
  block only.
\<close>

definition thinking_message :: "string \<Rightarrow> string list \<Rightarrow> string list \<Rightarrow> json list" where
  "thinking_message mid thoughts texts =
     [message_start mid, content_block_start 0 ''thinking'']
     @ map (thinking_delta 0) thoughts
     @ [content_block_stop 0, content_block_start 1 ''text'']
     @ map (text_delta 1) texts
     @ [content_block_stop 1, message_delta, message_stop]"

definition text_message :: "string \<Rightarrow> string list \<Rightarrow> json list" where
  "text_message mid texts =
     [message_start mid, content_block_start 0 ''text'']
     @ map (text_delta 0) texts
     @ [content_block_stop 0, message_delta, message_stop]"

text \<open>
  Two streams in flight: stream 0 is \<open>thinking_message ''msg_A'' [''plan''] [''answer'']\<close>,
  stream 1 is \<open>text_message ''msg_B'' [''hi'']\<close>, and the whole of stream 1 arrives while
  stream 0 is inside its thinking block.
\<close>

definition interleaved_streams :: "(nat \<times> json) list" where
  "interleaved_streams =
     [(0, message_start ''msg_A''),
      (0, content_block_start 0 ''thinking''),
      (0, thinking_delta 0 ''plan''),
      (1, message_start ''msg_B''),
      (1, content_block_start 0 ''text''),
      (1, text_delta 0 ''hi''),
      (1, content_block_stop 0),
      (1, message_delta),
      (1, message_stop),
      (0, content_block_stop 0),
      (0, content_block_start 1 ''text''),
      (0, text_delta 1 ''answer''),
      (0, content_block_stop 1),
      (0, message_delta),
      (0, message_stop)]"

section \<open>Selector\<close>

text \<open>
  A reading of \<^verbatim>\<open>datetime.now()\<close>: the time and its \<^verbatim>\<open>weekday()\<close> (0 is Monday).  A
  selection reads the clock several times; the model uses one reading for the whole call.
\<close>

record clock =
  clk_now :: timestamp
  clk_weekday :: nat

text \<open>\<^verbatim>\<open>_get_primary_indices\<close>, \<^verbatim>\<open>_get_backup_indices\<close>, \<^verbatim>\<open>get_codex_backup_api_indices\<close>.\<close>

definition get_primary_indices :: "upstream_config list \<Rightarrow> nat list" where
  "get_primary_indices cs =
     filter (\<lambda>i. case cfg_type (cs ! i) of None \<Rightarrow> True | Some t \<Rightarrow> t = ''primary'')
       [0 ..< length cs]"

definition get_backup_indices :: "upstream_config list \<Rightarrow> nat list" where
  "get_backup_indices cs = filter (\<lambda>i. cfg_type (cs ! i) = Some ''backup'') [0 ..< length cs]"

definition get_codex_backup_api_indices :: "upstream_config list \<Rightarrow> nat list" where
  "get_codex_backup_api_indices cs =
     (let backup_indices = get_backup_indices cs
      in if backup_indices \<noteq> [] then backup_indices
         else if length cs > 1 then [length cs - 1] else [])"

text \<open>
  \<^verbatim>\<open>is_api_available\<close> and \<^verbatim>\<open>is_codex_api_available\<close> (the same body on the two pools),
  called on the indices that \<^verbatim>\<open>enumerate\<close> gives.  A cooldown that has passed is cleared
  by the check itself, so the check returns the new state too.
\<close>

definition is_api_available :: "clock \<Rightarrow> pool_state \<Rightarrow> nat \<Rightarrow> bool \<times> pool_state" where
  "is_api_available clk st api_index =
     (if api_index \<ge> length (configs st) then (False, st)
      else
        (let api_config = configs st ! api_index;
             time_enabled = cfg_time_enabled api_config
         in if \<not> cfg_enabled api_config then (False, st)
            else if time_enabled \<noteq> [] \<and> clk_weekday clk < length time_enabled
                    \<and> \<not> time_enabled ! clk_weekday clk then (False, st)
            else
              (case api_status st (int api_index) of
                 None \<Rightarrow> (True, st)
               | Some r \<Rightarrow>
                   (case cooldown_until r of
                      None \<Rightarrow> (True, st)
                    | Some cu \<Rightarrow>
                        if clk_now clk < cu then (False, st)
                        else (True, st\<lparr>api_status := (api_status st)(int api_index \<mapsto>
                                r\<lparr>status := ''normal'', error_count := 0,
                                  cooldown_until := None\<rparr>)\<rparr>)))))"

text \<open>
  \<^verbatim>\<open>[idx for idx in indices if is_api_available(idx)]\<close>, and the loop
  \<^verbatim>\<open>for idx in indices: if is_api_available(idx): return idx\<close>, which stops at the first
  available index.
\<close>

fun filter_available :: "clock \<Rightarrow> pool_state \<Rightarrow> nat list \<Rightarrow> nat list \<times> pool_state" where
  "filter_available clk st [] = ([], st)"
| "filter_available clk st (i # rest) =
     (case is_api_available clk st i of
        (ok, st1) \<Rightarrow>
          (case filter_available clk st1 rest of
             (found, st2) \<Rightarrow> (if ok then i # found else found, st2)))"

fun first_available :: "clock \<Rightarrow> pool_state \<Rightarrow> nat list \<Rightarrow> nat option \<times> pool_state" where
  "first_available clk st [] = (None, st)"
| "first_available clk st (i # rest) =
     (case is_api_available clk st i of
        (ok, st1) \<Rightarrow> if ok then (Some i, st1) else first_available clk st1 rest)"

text \<open>\<^verbatim>\<open>find_primary_api_for_time\<close> and \<^verbatim>\<open>ensure_current_api_index\<close>.\<close>

definition find_primary_api_for_time :: "clock \<Rightarrow> pool_state \<Rightarrow> nat option \<times> pool_state" where
  "find_primary_api_for_time clk st =
     (let primary_indices = get_primary_indices (configs st)
      in if primary_indices = [] then (None, st)
         else (case first_available clk st primary_indices of
                 (Some i, st1) \<Rightarrow> (Some i, st1)
               | (None, st1) \<Rightarrow> (Some (hd primary_indices), st1)))"

definition ensure_current_api_index :: "clock \<Rightarrow> bool \<Rightarrow> pool_state \<Rightarrow> pool_state" where
  "ensure_current_api_index clk reset_backup_state st =
     (if configs st = [] then
        st\<lparr>current_config_index := - 1, is_using_backup := False, backup_start_time := None,
           last_primary_check_time := None\<rparr>
      else
        (case find_primary_api_for_time clk st of
           (found, st1) \<Rightarrow>
             (let preferred = (case found of None \<Rightarrow> 0 | Some p \<Rightarrow> int p)
              in if preferred < int (length (configs st1)) then
                   (let st2 = st1\<lparr>current_config_index := preferred\<rparr>;
                        st3 = (if reset_backup_state \<or> is_using_backup st2
                               then st2\<lparr>is_using_backup := False, backup_start_time := None,
                                       last_primary_check_time := None\<rparr>
                               else st2)
                    in st3\<lparr>last_primary_switch_time := clk_now clk\<rparr>)
                 else st1)))"

text \<open>The placeholder returned for an empty pool; its name is the UTF-8 text of the source.\<close>

definition unconfigured :: upstream_config where
  "unconfigured =
     \<lparr>cfg_name = [CHR 0xE6, CHR 0x9C, CHR 0xAA, CHR 0xE9, CHR 0x85, CHR 0x8D,
                  CHR 0xE7, CHR 0xBD, CHR 0xAE],
      cfg_base_url = [], cfg_key = [], cfg_type = None, cfg_enabled = True,
      cfg_time_enabled = replicate 7 True\<rparr>"

definition index_out_of_range :: "pool_state \<Rightarrow> bool" where
  "index_out_of_range st =
     (current_config_index st < 0 \<or> current_config_index st \<ge> int (length (configs st)))"

text \<open>
  The body that \<^verbatim>\<open>get_current_config\<close> and \<^verbatim>\<open>get_current_codex_config\<close> share once the
  index is in range.  The two functions spell it out twice; they differ in the list of
  backup indices, and in that only the messages pool stamps
  \<^verbatim>\<open>last_primary_switch_time\<close> (\<open>stamp\<close>).  Every \<^verbatim>\<open>return\<close> reads
  \<^verbatim>\<open>CONFIGS[current_config_index]\<close>, which can raise.
\<close>

definition select_entry ::
  "bool \<Rightarrow> timeout_settings \<Rightarrow> clock \<Rightarrow> nat list \<Rightarrow> pool_state \<Rightarrow>
     (py_exception + upstream_config) \<times> pool_state" where
  "select_entry stamp s clk backup_indices st1 =
     (let now = clk_now clk;
          primary_indices = get_primary_indices (configs st1);
          current = (\<lambda>st. (py_index (configs st) (current_config_index st), st))
      in case filter_available clk st1 primary_indices of
           (available_primary_indices, st2) \<Rightarrow>
             if is_using_backup st2 then
               (let check_interval = get_primary_api_check_interval s;
                    should_check = (case last_primary_check_time st2 of
                                      None \<Rightarrow> True
                                    | Some t \<Rightarrow> now - t \<ge> check_interval)
                in if should_check \<and> available_primary_indices \<noteq> [] then
                     (let target_idx = hd available_primary_indices;
                          st3 = st2\<lparr>is_using_backup := False, backup_start_time := None,
                                   last_primary_check_time := None,
                                   current_config_index := int target_idx\<rparr>
                      in current (if stamp then st3\<lparr>last_primary_switch_time := now\<rparr> else st3))
                   else
                     (let st3 = (if should_check then st2\<lparr>last_primary_check_time := Some now\<rparr>
                                 else st2)
                      in case first_available clk st3 backup_indices of
                           (Some backup_idx, st4) \<Rightarrow>
                             (let st5 = (if current_config_index st4 \<noteq> int backup_idx
                                         then st4\<lparr>backup_start_time := Some now,
                                                 last_primary_check_time := None\<rparr>
                                         else st4)
                              in current (st5\<lparr>current_config_index := int backup_idx,
                                              is_using_backup := True\<rparr>))
                         | (None, st4) \<Rightarrow> current st4))
             else if available_primary_indices \<noteq> [] then
               (let selected_index = hd available_primary_indices;
                    st3 = (if stamp \<and> current_config_index st2 \<noteq> int selected_index
                           then st2\<lparr>last_primary_switch_time := now\<rparr> else st2)
                in current (st3\<lparr>is_using_backup := False, backup_start_time := None,
                                last_primary_check_time := None,
                                current_config_index := int selected_index\<rparr>))
             else
               (case first_available clk st2 backup_indices of
                  (Some backup_idx, st4) \<Rightarrow>
                    (let st5 = (if stamp \<and> (current_config_index st4 \<noteq> int backup_idx
                                             \<or> \<not> is_using_backup st4)
                                then st4\<lparr>last_primary_switch_time := now\<rparr> else st4)
                     in current (st5\<lparr>is_using_backup := True, backup_start_time := Some now,
                                     last_primary_check_time := None,
                                     current_config_index := int backup_idx\<rparr>))
                | (None, st4) \<Rightarrow> current st4))"

text \<open>
  The first block of \<^verbatim>\<open>get_current_config\<close>: an index that is negative or beyond the
  pool is recomputed by \<^verbatim>\<open>ensure_current_api_index(now, reset_backup_state=True)\<close> and,
  if that leaves it out of range, set to 0.
\<close>

definition normalize_api_index :: "clock \<Rightarrow> pool_state \<Rightarrow> pool_state" where
  "normalize_api_index clk st =
     (if index_out_of_range st then
        (let st' = ensure_current_api_index clk True st
         in if index_out_of_range st' then st'\<lparr>current_config_index := 0\<rparr> else st')
      else st)"

text \<open>\<^verbatim>\<open>get_current_config\<close>.\<close>

definition get_current_config ::
  "timeout_settings \<Rightarrow> clock \<Rightarrow> pool_state \<Rightarrow> (py_exception + upstream_config) \<times> pool_state" where
  "get_current_config s clk st =
     (if configs st = [] then (Inr unconfigured, st)
      else
        (let st1 = normalize_api_index clk st
         in select_entry True s clk (get_backup_indices (configs st1)) st1))"

text \<open>
  The first block of \<^verbatim>\<open>get_current_codex_config\<close> under its lock: an index out of range
  becomes the first available primary, else the first primary, else 0.
\<close>

definition normalize_codex_index :: "clock \<Rightarrow> pool_state \<Rightarrow> pool_state" where
  "normalize_codex_index clk st =
     (let primary_indices = get_primary_indices (configs st)
      in if index_out_of_range st then
           (case first_available clk st primary_indices of
              (Some initial_primary, st') \<Rightarrow> st'\<lparr>current_config_index := int initial_primary\<rparr>
            | (None, st') \<Rightarrow>
                if primary_indices \<noteq> []
                then st'\<lparr>current_config_index := int (hd primary_indices)\<rparr>
                else st'\<lparr>current_config_index := 0\<rparr>)
         else st)"

text \<open>
  \<^verbatim>\<open>get_current_codex_config\<close>: the placeholder for an empty pool, the only entry of
  a pool of one without a look at the state, and the selection otherwise.
\<close>

definition get_current_codex_config ::
  "timeout_settings \<Rightarrow> clock \<Rightarrow> pool_state \<Rightarrow> (py_exception + upstream_config) \<times> pool_state" where
  "get_current_codex_config s clk st =
     (if configs st = [] then (Inr unconfigured, st)
      else if length (configs st) = 1 then (py_index (configs st) 0, st)
      else
        (let backup_indices = get_codex_backup_api_indices (configs st);
             st1 = normalize_codex_index clk st
         in select_entry False s clk backup_indices st1))"

text \<open>The selector of a pool: the messages pool or the responses (Codex) pool.\<close>

datatype pool_kind = Messages | Responses

fun selector ::
  "pool_kind \<Rightarrow> timeout_settings \<Rightarrow> clock \<Rightarrow> pool_state \<Rightarrow>
     (py_exception + upstream_config) \<times> pool_state" where
  "selector Messages s clk st = get_current_config s clk st"
| "selector Responses s clk st = get_current_codex_config s clk st"

text \<open>A responses pool of one entry, which its selector returns without selecting.\<close>

definition pool_of_one :: "pool_kind \<Rightarrow> pool_state \<Rightarrow> bool" where
  "pool_of_one k st = (k = Responses \<and> length (configs st) = 1)"

text \<open>
  Whether an entry is available, as a property of the state: the answer of the check without
  its side effect.  The probe of the primaries is due when no probe has been made yet or the
  last one is at least the check interval ago.
\<close>

definition available :: "clock \<Rightarrow> pool_state \<Rightarrow> nat \<Rightarrow> bool" where
  "available clk st i = fst (is_api_available clk st i)"

definition primary_available :: "clock \<Rightarrow> pool_state \<Rightarrow> bool" where
  "primary_available clk st = list_ex (available clk st) (get_primary_indices (configs st))"


definition probe_due :: "timeout_settings \<Rightarrow> clock \<Rightarrow> pool_state \<Rightarrow> bool" where
  "probe_due s clk st =
     (case last_primary_check_time st of
        None \<Rightarrow> True
      | Some t \<Rightarrow> clk_now clk - t \<ge> get_primary_api_check_interval s)"

definition ex_clock :: clock where
  "ex_clock = \<lparr>clk_now = 1000, clk_weekday = 2\<rparr>"

text \<open>
  What an availability check may change: it rewrites status records only, leaves every other
  global as it was, and does not change the answer of any later check at the same reading of
  the clock.
\<close>

definition frame :: "clock \<Rightarrow> pool_state \<Rightarrow> pool_state \<Rightarrow> bool" where
  "frame clk st st' =
     (configs st' = configs st
      \<and> current_config_index st' = current_config_index st
      \<and> is_using_backup st' = is_using_backup st
      \<and> backup_start_time st' = backup_start_time st
      \<and> last_primary_check_time st' = last_primary_check_time st
      \<and> last_primary_switch_time st' = last_primary_switch_time st
      \<and> (\<forall>i. available clk st' i = available clk st i))"

text \<open>
  Example pools.  \<open>pool_on_backup t\<close>: a primary \<open>A\<close> and a backup \<open>B\<close>, both available,
  the pool on backup \<open>B\<close> with its last probe of the primaries at time \<open>t\<close>.
  \<open>pool_all_cooling\<close>: the same two entries, both in cooldown until time 2000.
  \<open>codex_pool_of_one\<close>: a responses pool with the single entry \<open>A\<close> and the index \<open>-1\<close>.
\<close>

definition pool_on_backup :: "timestamp option \<Rightarrow> pool_state" where
  "pool_on_backup t =
     (ex_pool [ex_cfg ''A'' (Some ''primary''), ex_cfg ''B'' (Some ''backup'')]
        (init_status_dict [ex_cfg ''A'' (Some ''primary''), ex_cfg ''B'' (Some ''backup'')]) 1 True)
     \<lparr>last_primary_check_time := t\<rparr>"




section \<open>Retry loop: the strategy-retry path\<close>



















section \<open>Theorems: error recording\<close>

lemma record_error_core_entry:
  "fst (record_error_core i ec sl sd cs th nm now cd) i =
     Some (let r = entry_state sd i in
           if error_count r + 1 \<ge> th
           then r\<lparr>error_count := error_count r + 1, cooldown_until := Some (now + cd),
                  status := ''warning''\<rparr>
           else r\<lparr>error_count := error_count r + 1\<rparr>)"
  by (simp add: record_error_core_def entry_state_def Let_def split: option.split)

lemma record_error_core_other:
  "j \<noteq> i \<Longrightarrow> fst (record_error_core i ec sl sd cs th nm now cd) j = sd j"
  by (simp add: record_error_core_def Let_def split: option.split)

lemma record_api_error_state:
  "fst (record_api_error s now i ec sl st) =
     st\<lparr>api_status := fst (record_error_core i ec sl (api_status st) (configs st)
        (get_api_error_threshold s) ''API'' now (get_api_cooldown_seconds s))\<rparr>"
  by (simp add: record_api_error_def Let_def split: prod.split)

lemma record_codex_error_state:
  "fst (record_codex_error s now i ec sl st) =
     st\<lparr>api_status := fst (record_error_core i ec sl (api_status st) (configs st)
        (get_codex_error_threshold s) ''Codex'' now (get_api_cooldown_seconds s))\<rparr>"
  by (simp add: record_codex_error_def Let_def split: prod.split)

text \<open>
  C10.  Every call of \<^verbatim>\<open>record_api_error\<close> and of \<^verbatim>\<open>record_codex_error\<close> leaves a
  status record at the target index whose counter is the old one (zero when the record was
  missing) plus exactly one.  Whenever the new counter is at or above the threshold, on the
  first crossing and on every later call alike, the deadline is set again to
  \<open>now + cooldown_seconds\<close> and the status to warning; below the threshold the deadline and
  the status stay as they were.  No other record changes.
\<close>

theorem record_error_increments_and_cools:
  assumes "(st', th) = (fst (record_api_error s now i ec sl st), get_api_error_threshold s)
         \<or> (st', th) = (fst (record_codex_error s now i ec sl st), get_codex_error_threshold s)"
  shows "\<exists>r'. api_status st' i = Some r'
           \<and> error_count r' = error_count (entry_state (api_status st) i) + 1
           \<and> (error_count r' \<ge> th \<longrightarrow>
                 cooldown_until r' = Some (now + get_api_cooldown_seconds s)
                 \<and> status r' = ''warning'')
           \<and> (error_count r' < th \<longrightarrow>
                 cooldown_until r' = cooldown_until (entry_state (api_status st) i)
                 \<and> status r' = status (entry_state (api_status st) i))
           \<and> (\<forall>j. j \<noteq> i \<longrightarrow> api_status st' j = api_status st j)
           \<and> configs st' = configs st
           \<and> current_config_index st' = current_config_index st
           \<and> is_using_backup st' = is_using_backup st"
proof -
  from assms obtain nm where st': "st' = st\<lparr>api_status :=
      fst (record_error_core i ec sl (api_status st) (configs st) th nm now
             (get_api_cooldown_seconds s))\<rparr>"
    by (auto simp: record_api_error_state record_codex_error_state)
  let ?r = "entry_state (api_status st) i"
  have e: "api_status st' i = Some (if error_count ?r + 1 \<ge> th
           then ?r\<lparr>error_count := error_count ?r + 1,
                   cooldown_until := Some (now + get_api_cooldown_seconds s),
                   status := ''warning''\<rparr>
           else ?r\<lparr>error_count := error_count ?r + 1\<rparr>)"
    using record_error_core_entry [of i ec sl "api_status st" "configs st" th nm now
        "get_api_cooldown_seconds s"]
    by (simp add: st' Let_def)
  have o: "\<forall>j. j \<noteq> i \<longrightarrow> api_status st' j = api_status st j"
    by (simp add: st' record_error_core_other)
  show ?thesis
    using e o by (auto simp: st')
qed

text \<open>
  Witness for C10: the third error in a row on entry \<open>A\<close> with the default threshold 3 and
  the default cooldown of 600 seconds, recorded at time 1000.
\<close>

theorem record_error_witness:
  "\<exists>r'. api_status (fst (record_api_error ex_settings 1000 0 503 True
            (ex_pool [ex_cfg ''A'' None]
               (Map.empty(0 \<mapsto> \<lparr>status = ''normal'', error_count = 2, cooldown_until = None\<rparr>))
               0 False))) 0 = Some r'
        \<and> error_count r' = 3 \<and> cooldown_until r' = Some 1600 \<and> status r' = ''warning''"
proof -
  let ?st = "ex_pool [ex_cfg ''A'' None]
               (Map.empty(0 \<mapsto> \<lparr>status = ''normal'', error_count = 2, cooldown_until = None\<rparr>))
               0 False"
  have "(fst (record_api_error ex_settings 1000 0 503 True ?st), get_api_error_threshold ex_settings)
        = (fst (record_api_error ex_settings 1000 0 503 True ?st), get_api_error_threshold ex_settings)
      \<or> (fst (record_api_error ex_settings 1000 0 503 True ?st), get_api_error_threshold ex_settings)
        = (fst (record_codex_error ex_settings 1000 0 503 True ?st), get_codex_error_threshold ex_settings)"
    by simp
  from record_error_increments_and_cools [OF this]
  show ?thesis
    by (auto simp: entry_state_def ex_pool_def ex_settings_def get_api_error_threshold_def
        get_api_cooldown_seconds_def)
qed

section \<open>Theorems: the invariant of the status records\<close>

text \<open>
  Every function that writes a status dictionary keeps \<open>status_dict_ok\<close>, and the
  dictionary starts in it.
\<close>

lemma init_status_dict_ok: "status_dict_ok (init_status_dict cs)"
  by (simp add: status_dict_ok_def init_status_dict_def status_rec_ok_def fresh_status_def)

lemma record_error_core_ok:
  "status_dict_ok sd \<Longrightarrow> status_dict_ok (fst (record_error_core i ec sl sd cs th nm now cd))"
  unfolding status_dict_ok_def
proof (intro allI impI)
  fix j r
  assume ok: "\<forall>i r. sd i = Some r \<longrightarrow> status_rec_ok r"
    and j: "fst (record_error_core i ec sl sd cs th nm now cd) j = Some r"
  have e: "status_rec_ok (entry_state sd i)"
    using ok by (auto simp: entry_state_def status_rec_ok_def fresh_status_def split: option.split)
  show "status_rec_ok r"
  proof (cases "j = i")
    case True
    with j e show ?thesis
      by (auto simp: record_error_core_entry Let_def status_rec_ok_def split: if_splits)
  next
    case False
    with j ok show ?thesis by (simp add: record_error_core_other)
  qed
qed

lemma status_dict_ok_upd:
  "status_dict_ok sd \<Longrightarrow> status_rec_ok r \<Longrightarrow> status_dict_ok (sd(i \<mapsto> r))"
  by (simp add: status_dict_ok_def)

lemma cleared_ok:
  "status_rec_ok (r\<lparr>error_count := 0, cooldown_until := None, status := ''normal''\<rparr>)"
  by (simp add: status_rec_ok_def)

lemma reset_on_success_ok:
  "status_dict_ok (api_status st) \<Longrightarrow> reset_on_success c st = Inr st' \<Longrightarrow>
     status_dict_ok (api_status st')"
  by (auto simp: reset_on_success_def Let_def cleared_ok status_dict_ok_upd
      split: if_splits option.splits)

lemma reset_cooldown_one_ok:
  "status_dict_ok (api_status st) \<Longrightarrow> status_dict_ok (api_status (reset_cooldown_one i st))"
  by (auto simp: reset_cooldown_one_def status_dict_ok_upd status_rec_ok_def fresh_status_def
      split: option.splits)

lemma reset_cooldown_one_configs: "configs (reset_cooldown_one i st) = configs st"
  by (auto simp: reset_cooldown_one_def split: option.splits)

lemma fold_reset_ok:
  "status_dict_ok (api_status st) \<Longrightarrow>
     status_dict_ok (api_status (fold (\<lambda>i s. reset_cooldown_one (int i) s) xs st))"
  by (induction xs arbitrary: st) (simp_all add: reset_cooldown_one_ok)

lemma reset_cooldown_all_ok:
  "status_dict_ok (api_status st) \<Longrightarrow> status_dict_ok (api_status (reset_cooldown_all st))"
  by (simp add: reset_cooldown_all_def fold_reset_ok)

section \<open>Theorems: recovery after a successful response\<close>

text \<open>
  C3.  When a response with status below 400 arrives, the runtime state of the entry at the
  current index is fully cleared afterwards: the counter is 0, the deadline is unset and the
  status is \<^verbatim>\<open>"normal"\<close>.  The code skips the write when the counter is not positive and
  no deadline is set; by the invariant of the status records the entry is then already clear.
  For the messages pool the record must exist (the code reads it unguarded); for the responses
  pool the index must be below the pool's length, which is the code's own guard.
\<close>

theorem success_clears_runtime_state:
  assumes ok: "status_dict_ok (api_status st)"
    and present: "is_codex_request \<or> api_status st (current_config_index st) \<noteq> None"
    and inrange: "\<not> is_codex_request \<or> current_config_index st < int (length (configs st))"
  shows "\<exists>st'. reset_on_success is_codex_request st = Inr st'
           \<and> entry_state (api_status st') (current_config_index st') = fresh_status
           \<and> (is_codex_request \<or> api_status st' (current_config_index st') = Some fresh_status)
           \<and> (\<forall>j. j \<noteq> current_config_index st \<longrightarrow> api_status st' j = api_status st j)
           \<and> current_config_index st' = current_config_index st
           \<and> configs st' = configs st \<and> is_using_backup st' = is_using_backup st"
proof (cases "api_status st (current_config_index st)")
  case None
  with present inrange show ?thesis
    by (auto simp: reset_on_success_def Let_def entry_state_def)
next
  case (Some r)
  with ok have r: "status_rec_ok r" by (auto simp: status_dict_ok_def)
  have fr: "error_count r \<le> 0 \<Longrightarrow> cooldown_until r = None \<Longrightarrow> r = fresh_status"
    using r by (cases r) (auto simp: status_rec_ok_def fresh_status_def)
  have cl: "r\<lparr>error_count := 0, cooldown_until := None, status := ''normal''\<rparr> = fresh_status"
    by (cases r) (simp add: fresh_status_def)
  show ?thesis
    using Some inrange fr cl
    by (auto simp: reset_on_success_def Let_def entry_state_def)
qed

text \<open>Witness for C3: an entry in cooldown after three errors answers with a success.\<close>

theorem success_clears_witness:
  "\<exists>st'. reset_on_success False
            (ex_pool [ex_cfg ''A'' None]
               (Map.empty(0 \<mapsto> \<lparr>status = ''warning'', error_count = 3, cooldown_until = Some 1600\<rparr>))
               0 False) = Inr st'
        \<and> api_status st' 0 = Some fresh_status"
proof -
  let ?st = "ex_pool [ex_cfg ''A'' None]
               (Map.empty(0 \<mapsto> \<lparr>status = ''warning'', error_count = 3, cooldown_until = Some 1600\<rparr>))
               0 False"
  have ok: "status_dict_ok (api_status ?st)"
    by (simp add: ex_pool_def status_dict_ok_def status_rec_ok_def)
  have p: "False \<or> api_status ?st (current_config_index ?st) \<noteq> None"
    by (simp add: ex_pool_def)
  have q: "\<not> False \<or> current_config_index ?st < int (length (configs ?st))"
    by simp
  from success_clears_runtime_state [OF ok p q]
  show ?thesis by (auto simp: ex_pool_def)
qed

section \<open>Theorems: adaptive timeout\<close>

text \<open>
  C5.  The adaptive timeout of the responses pool is the state machine of the claim.  A stream
  that ends in a body timeout adds the configured increment to the extra seconds and sets
  the success counter to 0.  A stream that completes leaves the state alone when the extra
  seconds are 0; otherwise it adds one to the success counter, and when the counter has
  reached 3 both fields go back to 0.  The deadline of a stream is the configured base plus
  the extra seconds at its start.
\<close>

theorem adaptive_timeout_machine:
  "codex_stream s a BodyTimeout =
     adaptive (codex_timeout_extra_seconds a + get_codex_timeout_increment s) 0
   \<and> codex_stream s a Completed =
     (if codex_timeout_extra_seconds a > 0
      then if codex_success_count a + 1 \<ge> 3 then adaptive 0 0
           else adaptive (codex_timeout_extra_seconds a) (codex_success_count a + 1)
      else a)
   \<and> stream_total_timeout s a = get_codex_base_timeout s + codex_timeout_extra_seconds a"
  by (cases a)
     (simp add: on_stream_timeout_def on_stream_finally_def stream_total_timeout_def adaptive_def)

text \<open>
  With extra seconds pending and no success counted yet, the first two completions keep the
  longer deadline and the third one resets it.
\<close>

lemma three_successes_reset:
  assumes "codex_timeout_extra_seconds a > 0" and "codex_success_count a = 0"
  shows "codex_timeout_extra_seconds (codex_stream s a Completed) = codex_timeout_extra_seconds a"
    and "codex_timeout_extra_seconds (foldl (codex_stream s) a [Completed, Completed])
           = codex_timeout_extra_seconds a"
    and "foldl (codex_stream s) a [Completed, Completed, Completed] = adaptive 0 0"
  using assms by (cases a; simp add: on_stream_finally_def adaptive_def)+

text \<open>The counters never leave the range the claim describes.\<close>

lemma adaptive_invariant:
  assumes "0 \<le> get_codex_timeout_increment s"
    and "0 \<le> codex_timeout_extra_seconds a"
    and "0 \<le> codex_success_count a \<and> codex_success_count a < 3"
  shows "0 \<le> codex_timeout_extra_seconds (codex_stream s a e)
       \<and> 0 \<le> codex_success_count (codex_stream s a e)
       \<and> codex_success_count (codex_stream s a e) < 3"
  using assms by (cases e) (auto simp: on_stream_timeout_def on_stream_finally_def Let_def)

text \<open>
  Scenario S4 of the specification: base 60, a timeout gives extra 60 and a deadline of 120
  for the next stream, and three completions in a row reset the state.
\<close>

lemma scenario_adaptive_growth:
  "codex_stream ex_settings (adaptive 0 0) BodyTimeout = adaptive 60 0
   \<and> stream_total_timeout ex_settings (adaptive 60 0) = 120
   \<and> foldl (codex_stream ex_settings) (adaptive 60 0) [Completed, Completed, Completed]
       = adaptive 0 0"
  by (simp add: on_stream_timeout_def on_stream_finally_def stream_total_timeout_def adaptive_def
      ex_settings_def get_codex_timeout_increment_def get_codex_base_timeout_def)

section \<open>Theorems: error classifier\<close>

lemma default_http_default:
  "http_status_codes default_strategies ''default'' = Some ''strategy_retry''"
  by (simp add: default_strategies_def)

lemma default_net_default:
  "network_errors default_strategies ''default'' = Some ''switch_api''"
  by (simp add: default_strategies_def)

lemma merged_http_default:
  "\<exists>s. http_status_codes (get_error_handling_strategies stored) ''default'' = Some s"
  by (simp add: get_error_handling_strategies_def default_http_default map_add_def
      split: option.split)

lemma merged_net_default:
  "\<exists>s. network_errors (get_error_handling_strategies stored) ''default'' = Some s"
  by (simp add: get_error_handling_strategies_def default_net_default map_add_def
      split: option.split)

lemma merged_net_listed:
  "k \<in> {''ReadError'', ''ConnectError'', ''ReadTimeout''} \<Longrightarrow>
     \<exists>s. network_errors (get_error_handling_strategies stored) k = Some s"
  by (auto simp: get_error_handling_strategies_def default_strategies_def map_add_def
      split: option.split)

lemma get_error_strategy_http:
  "get_error_strategy stored (IntCode n) ''http_status_code'' =
     Some (classify_spec (get_error_handling_strategies stored) (HttpStatus n))"
  using merged_http_default [of stored]
  by (auto simp: get_error_strategy_def classify_spec_def Let_def split: option.split)

lemma get_error_strategy_network:
  "get_error_strategy stored (StrCode k) ''network_error'' =
     Some (classify_spec (get_error_handling_strategies stored) (TransportError k))"
  using merged_net_default [of stored]
  by (auto simp: get_error_strategy_def classify_spec_def Let_def split: option.split)

lemma get_network_error_strategy_listed:
  "k \<in> {''ReadError'', ''ConnectError'', ''ReadTimeout''} \<Longrightarrow>
     get_network_error_strategy stored k =
       classify_spec (get_error_handling_strategies stored) (TransportError k)"
  using merged_net_listed [of k stored]
  by (auto simp: get_network_error_strategy_def classify_spec_def)

text \<open>
  C1.  \<^verbatim>\<open>get_error_strategy\<close> on the table that \<^verbatim>\<open>get_error_handling_strategies\<close>
  returns resolves every outcome in the order of the claim: the exact key of the matching
  table, then that table's \<^verbatim>\<open>default\<close>, then the fixed fallback
  (\<^verbatim>\<open>strategy_retry\<close> for a status, \<^verbatim>\<open>switch_api\<close> for a transport error); it always
  returns a strategy.  \<^verbatim>\<open>get_network_error_strategy\<close>, which the retry loop calls with
  the three kinds \<^verbatim>\<open>ReadError\<close>, \<^verbatim>\<open>ConnectError\<close> and \<^verbatim>\<open>ReadTimeout\<close>, gives the same
  answer on each of them.
\<close>

theorem classifier_lookup_order:
  "get_error_strategy stored (IntCode n) ''http_status_code'' =
     Some (classify_spec (get_error_handling_strategies stored) (HttpStatus n))
   \<and> get_error_strategy stored (StrCode k) ''network_error'' =
     Some (classify_spec (get_error_handling_strategies stored) (TransportError k))
   \<and> get_network_error_strategy stored ''ReadError'' =
     classify_spec (get_error_handling_strategies stored) (TransportError ''ReadError'')
   \<and> get_network_error_strategy stored ''ConnectError'' =
     classify_spec (get_error_handling_strategies stored) (TransportError ''ConnectError'')
   \<and> get_network_error_strategy stored ''ReadTimeout'' =
     classify_spec (get_error_handling_strategies stored) (TransportError ''ReadTimeout'')"
  by (simp add: get_error_strategy_http get_error_strategy_network
      get_network_error_strategy_listed)

text \<open>
  Where the fallback comes from: the merged table always has a \<^verbatim>\<open>default\<close>, which is the
  stored one when the configuration gives one and the built-in one otherwise.  So a key that
  neither the stored nor the built-in table lists, under a configuration with no stored
  \<^verbatim>\<open>default\<close>, gets the fixed fallback.
\<close>

lemma classifier_fallback:
  assumes "matching_table (get_error_handling_strategies stored) out (exact_key out) = None"
    and "\<forall>t. (case out of HttpStatus n \<Rightarrow> stored_http_status_codes stored
                        | TransportError k \<Rightarrow> stored_network_errors stored) = Some t \<longrightarrow>
              t ''default'' = None"
  shows "classify_spec (get_error_handling_strategies stored) out = hard_coded_fallback out"
  using assms
  by (cases out)
     (auto simp: classify_spec_def get_error_handling_strategies_def default_http_default
        default_net_default map_add_def split: option.splits)

text \<open>Status 401 and status 418 under an empty configuration, and a stored default.\<close>

lemma classifier_examples:
  "get_error_strategy \<lparr>stored_http_status_codes = None, stored_network_errors = None\<rparr>
     (IntCode 401) ''http_status_code'' = Some ''switch_api''
   \<and> get_error_strategy \<lparr>stored_http_status_codes = None, stored_network_errors = None\<rparr>
     (IntCode 418) ''http_status_code'' = Some ''strategy_retry''
   \<and> get_error_strategy
       \<lparr>stored_http_status_codes = Some (map_of [(''default'', ''normal_retry'')]),
        stored_network_errors = None\<rparr>
     (IntCode 418) ''http_status_code'' = Some ''normal_retry''"
  by (simp add: get_error_strategy_def get_error_handling_strategies_def default_strategies_def
      py_str_int_def digit_char_def map_add_def Let_def)

section \<open>Theorems: detection of OpenAI-Chat requests\<close>

lemma count_true_four:
  "(length (filter id [a, b, False, False]) \<ge> 2) = (a \<and> b)"
  by (cases a; cases b) simp_all

text \<open>
  C7, as the claim states it, fails: a request whose message content is a plain string is
  classified as OpenAI although it has a \<^verbatim>\<open>system\<close> field, because
  \<^verbatim>\<open>is_openai_request\<close> returns at the string content before it looks at any
  Anthropic feature.
\<close>

theorem anthropic_preference_counterexample:
  "spec_openai_heuristics req_string_content_with_system
   \<and> spec_anthropic_fields req_string_content_with_system
   \<and> is_openai_request req_string_content_with_system"
  by (simp add: spec_openai_heuristics_def spec_anthropic_fields_def is_openai_request_def
      req_string_content_with_system_def is_openai_messages_format_def has_key_def get_or_def)

text \<open>
  C7, amended.  For a request that has the Anthropic features \<^verbatim>\<open>_has_claude_format_features\<close>
  looks for, and both \<^verbatim>\<open>model\<close> and \<^verbatim>\<open>messages\<close>, the detector answers OpenAI exactly
  when some message has plain-string content (as the scan of the messages finds it), or an
  OpenAI-specific parameter is present, or the model name is OpenAI-style and
  \<^verbatim>\<open>temperature\<close> or \<^verbatim>\<open>top_p\<close> is present.  In every other case the request is
  classified as Anthropic.
\<close>

theorem anthropic_features_decision:
  assumes "has_claude_format_features (JObj kv)"
    and "has_key kv ''model''" and "has_key kv ''messages''"
  shows "is_openai_request (JObj kv) =
           (is_openai_messages_format (get_or kv ''messages'' (JArr []))
            \<or> list_ex (has_key kv) openai_specific_params
            \<or> (is_openai_model_name (get_or kv ''model'' (JStr []))
                \<and> (has_key kv ''temperature'' \<or> has_key kv ''top_p'')))"
proof -
  have "is_openai_request (JObj kv) =
          (if is_openai_messages_format (get_or kv ''messages'' (JArr [])) then True
           else if list_ex (has_key kv) openai_specific_params then True
           else length (filter id
                  [is_openai_model_name (get_or kv ''model'' (JStr [])),
                   has_key kv ''temperature'' \<or> has_key kv ''top_p'', False, False]) \<ge> 2)"
    using assms by (simp add: is_openai_request_def Let_def)
  then show ?thesis
    by (simp only: count_true_four) auto
qed

text \<open>
  Witness for the amended C7: the second request has block content and a \<^verbatim>\<open>system\<close>
  field, and is still classified as OpenAI through its model name and temperature; the
  module's own native Anthropic request is classified as Anthropic.
\<close>

theorem anthropic_features_decision_witness:
  "has_claude_format_features req_blocks_gpt_temperature
   \<and> is_openai_request req_blocks_gpt_temperature
   \<and> \<not> is_openai_messages_format (JArr [JObj [(''role'', JStr ''user''),
          (''content'', JArr [JObj [(''type'', JStr ''text''), (''text'', JStr ''hello'')]])]])"
proof -
  let ?kv = "[(''model'', JStr ''gpt-4''),
           (''messages'', JArr [JObj [(''role'', JStr ''user''),
              (''content'', JArr [JObj [(''type'', JStr ''text''), (''text'', JStr ''hello'')]])]]),
           (''system'', JStr ''be brief''),
           (''temperature'', JInt 1)]"
  have f: "has_claude_format_features (JObj ?kv)"
    by (simp add: has_claude_format_features_def has_key_def get_or_def msg_has_claude_block_def
        is_claude_block_def)
  have m: "has_key ?kv ''model''" and g: "has_key ?kv ''messages''"
    by (simp_all add: has_key_def)
  have n: "\<not> is_openai_messages_format (JArr [JObj [(''role'', JStr ''user''),
          (''content'', JArr [JObj [(''type'', JStr ''text''), (''text'', JStr ''hello'')]])]])"
    by (simp add: is_openai_messages_format_def)
  have "is_openai_request (JObj ?kv)"
    unfolding anthropic_features_decision [OF f m g]
    by (simp add: is_openai_model_name_def lower_def lower_char_def has_key_def get_or_def)
  with f n show ?thesis
    by (simp add: req_blocks_gpt_temperature_def)
qed

text \<open>The native Anthropic request of the module's own test is classified as Anthropic.\<close>

lemma native_anthropic_request:
  "\<not> is_openai_request req_native_anthropic"
  by (simp add: is_openai_request_def req_native_anthropic_def is_openai_messages_format_def
      has_key_def get_or_def openai_specific_params_def is_openai_model_name_def lower_def
      lower_char_def has_claude_format_features_def msg_has_claude_block_def is_claude_block_def)

text \<open>The fields the claim names are among the features the code looks for.\<close>

lemma spec_fields_are_features:
  "spec_anthropic_fields (JObj kv) \<Longrightarrow> has_claude_format_features (JObj kv)"
  by (auto simp: spec_anthropic_fields_def has_claude_format_features_def Let_def get_or_def
      split: option.splits json.splits)

section \<open>Theorems: usage store\<close>

lemma usage_nonneg_lookup:
  "usage_nonneg ud \<Longrightarrow> map_of ud k = Some v \<Longrightarrow> num_of v = Some n \<Longrightarrow> 0 \<le> n"
  by (induction ud) (auto simp: usage_nonneg_def split: if_splits)

lemma usage_nonneg_get_or:
  "usage_nonneg ud \<Longrightarrow> num_of d = Some x \<Longrightarrow> 0 \<le> x \<Longrightarrow> num_of (get_or ud k d) = Some n \<Longrightarrow> 0 \<le> n"
  by (auto simp: get_or_def split: option.splits dest: usage_nonneg_lookup)

lemma usage_nonneg_get_or_else:
  "usage_nonneg ud \<Longrightarrow> num_of (get_or_else ud k k2) = Some n \<Longrightarrow> 0 \<le> n"
  using usage_nonneg_get_or [of ud "JInt 0" 0 k2 n]
  by (auto simp: get_or_else_def split: option.splits if_splits dest: usage_nonneg_lookup)

lemma py_add_num:
  "py_add a b = Inr s \<Longrightarrow> num_of a = Some x \<Longrightarrow> num_of b = Some y \<Longrightarrow> s = JInt (x + y)"
  by (simp add: py_add_def)

lemma add_usage_le:
  assumes "add_usage c t i out cc cr = Inr c'"
    and "\<And>n. num_of t = Some n \<Longrightarrow> 0 \<le> n" and "\<And>n. num_of i = Some n \<Longrightarrow> 0 \<le> n"
    and "\<And>n. num_of out = Some n \<Longrightarrow> 0 \<le> n" and "\<And>n. num_of cc = Some n \<Longrightarrow> 0 \<le> n"
    and "\<And>n. num_of cr = Some n \<Longrightarrow> 0 \<le> n"
  shows "counters_le c c'"
  using assms by (auto simp: add_usage_def counters_le_def split: option.splits)

lemma counters_le_refl: "counters_le c c"
  by (simp add: counters_le_def)

lemma store_le_refl: "store_le s s"
  by (simp add: store_le_def counters_le_refl)

lemma stats_of_Some: "stats_of (Some s) = s"
  by (simp add: stats_of_def)

lemma stats_of_empty_counters:
  "summary (get_empty_stats_structure x) = zero_counters"
  "by_model (get_empty_stats_structure x) = Map.empty"
  "daily (get_empty_stats_structure x) = Map.empty"
  by (simp_all add: get_empty_stats_structure_def)


text \<open>
  Recording usage data that holds no negative number never lowers a counter.
\<close>

lemma record_usage_le:
  assumes nn: "usage_nonneg usage_data"
  shows "store_le store (record_usage store model usage_data today stamp)"
proof -
  let ?i = "get_or_else usage_data ''input_tokens'' ''prompt_tokens''"
  let ?o = "get_or_else usage_data ''output_tokens'' ''completion_tokens''"
  let ?cc = "get_or usage_data ''cache_creation_input_tokens'' (JInt 0)"
  let ?cr = "get_or usage_data ''cache_read_input_tokens'' (JInt 0)"
  let ?stats = "case store of Some s \<Rightarrow> s | None \<Rightarrow> get_empty_stats_structure stamp"
  have i: "\<And>n. num_of ?i = Some n \<Longrightarrow> 0 \<le> n"
    using nn by (rule usage_nonneg_get_or_else)
  have o: "\<And>n. num_of ?o = Some n \<Longrightarrow> 0 \<le> n"
    using nn by (rule usage_nonneg_get_or_else)
  have cc: "\<And>n. num_of ?cc = Some n \<Longrightarrow> 0 \<le> n"
    using nn by (rule usage_nonneg_get_or [of _ "JInt 0" 0]) simp_all
  have cr: "\<And>n. num_of ?cr = Some n \<Longrightarrow> 0 \<le> n"
    using nn by (rule usage_nonneg_get_or [of _ "JInt 0" 0]) simp_all
  show ?thesis
  proof (cases "py_add ?i ?o")
    case (Inl e)
    then show ?thesis by (simp add: record_usage_def Let_def store_le_refl)
  next
    case (Inr dt)
    let ?t = "get_or usage_data ''total_tokens'' dt"
    let ?bm = "case by_model ?stats model of None \<Rightarrow> zero_counters | Some c \<Rightarrow> c"
    let ?day = "case daily ?stats today of
                  None \<Rightarrow> \<lparr>day_counters = zero_counters, day_models = Map.empty\<rparr> | Some d \<Rightarrow> d"
    show ?thesis
    proof (cases "\<exists>s' bm' dc'. add_usage (summary ?stats) ?t ?i ?o ?cc ?cr = Inr s'
              \<and> add_usage ?bm ?t ?i ?o ?cc ?cr = Inr bm'
              \<and> add_usage (day_counters ?day) ?t ?i ?o ?cc ?cr = Inr dc'")
      case False
      then show ?thesis
        using Inr
        by (auto simp: record_usage_def Let_def store_le_refl split: sum.splits)
    next
      case True
      then obtain s' bm' dc' where
        s': "add_usage (summary ?stats) ?t ?i ?o ?cc ?cr = Inr s'" and
        bm': "add_usage ?bm ?t ?i ?o ?cc ?cr = Inr bm'" and
        dc': "add_usage (day_counters ?day) ?t ?i ?o ?cc ?cr = Inr dc'"
        by blast
      from s' obtain x y where xy: "num_of ?i = Some x" "num_of ?o = Some y"
        by (auto simp: add_usage_def split: option.splits)
      with Inr have dt: "dt = JInt (x + y)" by (simp add: py_add_num)
      have t: "\<And>n. num_of ?t = Some n \<Longrightarrow> 0 \<le> n"
        using nn by (rule usage_nonneg_get_or [of _ dt "x + y"]) (use dt xy i o in auto)
      have l1: "counters_le (summary ?stats) s'"
        using s' t i o cc cr by (rule add_usage_le)
      have l2: "counters_le ?bm bm'"
        using bm' t i o cc cr by (rule add_usage_le)
      have l3: "counters_le (day_counters ?day) dc'"
        using dc' t i o cc cr by (rule add_usage_le)
      have r: "record_usage store model usage_data today stamp =
          Some (?stats\<lparr>summary := s',
                  unique_models :=
                    (if model \<in> set (unique_models ?stats) then unique_models ?stats
                     else unique_models ?stats @ [model]),
                  by_model := (by_model ?stats)(model \<mapsto> bm'),
                  daily := (daily ?stats)(today \<mapsto>
                     \<lparr>day_counters = dc',
                      day_models = (day_models ?day)(model \<mapsto>
                        (case day_models ?day model of None \<Rightarrow> 0 | Some k \<Rightarrow> k) + 1)\<rparr>),
                  generated_at := stamp\<rparr>)"
        using Inr s' bm' dc' by (simp add: record_usage_def Let_def)
      have e1: "summary (stats_of store) = summary ?stats"
        and e2: "by_model (stats_of store) = by_model ?stats"
        and e3: "daily (stats_of store) = daily ?stats"
        by (simp_all add: stats_of_def stats_of_empty_counters split: option.split)
      show ?thesis
        unfolding r store_le_def
      proof (intro conjI allI)
        show "counters_le (summary (stats_of store)) (summary (stats_of (Some (?stats
            \<lparr>summary := s',
             unique_models :=
               (if model \<in> set (unique_models ?stats) then unique_models ?stats
                else unique_models ?stats @ [model]),
             by_model := (by_model ?stats)(model \<mapsto> bm'),
             daily := (daily ?stats)(today \<mapsto>
                \<lparr>day_counters = dc',
                 day_models = (day_models ?day)(model \<mapsto>
                   (case day_models ?day model of None \<Rightarrow> 0 | Some k \<Rightarrow> k) + 1)\<rparr>),
             generated_at := stamp\<rparr>))))"
          using l1 by (simp add: e1 stats_of_Some)
      next
        fix m
        show "counters_le (model_counters store m) (model_counters (Some (?stats
            \<lparr>summary := s',
             unique_models :=
               (if model \<in> set (unique_models ?stats) then unique_models ?stats
                else unique_models ?stats @ [model]),
             by_model := (by_model ?stats)(model \<mapsto> bm'),
             daily := (daily ?stats)(today \<mapsto>
                \<lparr>day_counters = dc',
                 day_models = (day_models ?day)(model \<mapsto>
                   (case day_models ?day model of None \<Rightarrow> 0 | Some k \<Rightarrow> k) + 1)\<rparr>),
             generated_at := stamp\<rparr>)) m)"
          using l2 by (simp add: model_counters_def e2 stats_of_Some counters_le_refl)
      next
        fix d
        show "counters_le (daily_counters store d) (daily_counters (Some (?stats
            \<lparr>summary := s',
             unique_models :=
               (if model \<in> set (unique_models ?stats) then unique_models ?stats
                else unique_models ?stats @ [model]),
             by_model := (by_model ?stats)(model \<mapsto> bm'),
             daily := (daily ?stats)(today \<mapsto>
                \<lparr>day_counters = dc',
                 day_models = (day_models ?day)(model \<mapsto>
                   (case day_models ?day model of None \<Rightarrow> 0 | Some k \<Rightarrow> k) + 1)\<rparr>),
             generated_at := stamp\<rparr>)) d)"
          using l3
          by (cases "daily ?stats today")
             (simp_all add: daily_counters_def e3 stats_of_Some counters_le_refl)
      next
        fix d m
        show "daily_model_requests store d m \<le> daily_model_requests (Some (?stats
            \<lparr>summary := s',
             unique_models :=
               (if model \<in> set (unique_models ?stats) then unique_models ?stats
                else unique_models ?stats @ [model]),
             by_model := (by_model ?stats)(model \<mapsto> bm'),
             daily := (daily ?stats)(today \<mapsto>
                \<lparr>day_counters = dc',
                 day_models = (day_models ?day)(model \<mapsto>
                   (case day_models ?day model of None \<Rightarrow> 0 | Some k \<Rightarrow> k) + 1)\<rparr>),
             generated_at := stamp\<rparr>)) d m"
          by (cases "daily ?stats today")
             (simp_all add: daily_model_requests_def e3 stats_of_Some split: option.split)
      qed
    qed
  qed
qed


text \<open>
  A \<^verbatim>\<open>response.completed\<close> event whose cached count lies between 0 and its input count,
  with an output count that is not negative, yields usage data with no negative number;
  recording it never lowers a counter.
\<close>

lemma codex_usage_nonneg:
  assumes "0 \<le> cached_n" and "cached_n \<le> input_n" and "0 \<le> output_n"
  shows "\<exists>ud. extract_usage_from_chunks [Some (response_completed input_n output_n cached_n)] True
                 = Some ud \<and> usage_nonneg ud"
  using assms
  by (simp add: usage_of_line_def response_completed_def get_or_def py_sub_def py_add_def
      usage_nonneg_def)

lemma codex_stream_monotone:
  assumes "0 \<le> cached_n" and "cached_n \<le> input_n" and "0 \<le> output_n"
  shows "store_le store
           (account_stream store model [Some (response_completed input_n output_n cached_n)]
              True today stamp)"
proof -
  from codex_usage_nonneg [OF assms] obtain ud where
    "extract_usage_from_chunks [Some (response_completed input_n output_n cached_n)] True = Some ud"
    and "usage_nonneg ud" by blast
  then show ?thesis
    by (simp add: account_stream_def) (rule record_usage_le)
qed


section \<open>Theorems: thinking brackets\<close>

lemma convert_message_start:
  "convert_stream_chunk st (message_start mid) =
     Inr (st(JStr mid \<mapsto> False), \<lparr>chunk_message_id = JStr mid, choices = [role_choice]\<rparr>)"
  by (simp add: Let_def convert_stream_chunk_def message_start_def get_or_def)

lemma convert_thinking_start:
  "convert_stream_chunk st (content_block_start i ''thinking'') =
     Inr (st(JStr ''default'' \<mapsto> True),
          \<lparr>chunk_message_id = JStr ''default'', choices = [content_choice (JStr think_open)]\<rparr>)"
  by (simp add: Let_def convert_stream_chunk_def content_block_start_def get_or_def)

lemma convert_text_start:
  "convert_stream_chunk st (content_block_start i ''text'') =
     (if st (JStr ''default'') = Some True
      then Inr (st(JStr ''default'' \<mapsto> False),
                \<lparr>chunk_message_id = JStr ''default'',
                 choices = [content_choice (JStr think_close_nl)]\<rparr>)
      else Inr (st, \<lparr>chunk_message_id = JStr ''default'', choices = []\<rparr>))"
  by (auto simp: Let_def convert_stream_chunk_def content_block_start_def get_or_def split: option.splits)

lemma convert_thinking_delta:
  "convert_stream_chunk st (thinking_delta i s) =
     Inr (st, \<lparr>chunk_message_id = JStr ''default'', choices = [content_choice (JStr s)]\<rparr>)"
  by (simp add: Let_def convert_stream_chunk_def thinking_delta_def get_or_def)

lemma convert_text_delta:
  "convert_stream_chunk st (text_delta i s) =
     Inr (st, \<lparr>chunk_message_id = JStr ''default'', choices = [content_choice (JStr s)]\<rparr>)"
  by (simp add: Let_def convert_stream_chunk_def text_delta_def get_or_def)

lemma convert_block_stop:
  "convert_stream_chunk st (content_block_stop i) =
     Inr (st, \<lparr>chunk_message_id = JStr ''default'', choices = []\<rparr>)"
  by (simp add: Let_def convert_stream_chunk_def content_block_stop_def get_or_def)

lemma convert_message_delta:
  "convert_stream_chunk st message_delta =
     Inr (st, \<lparr>chunk_message_id = JStr ''default'', choices = []\<rparr>)"
  by (simp add: Let_def convert_stream_chunk_def message_delta_def get_or_def)

lemma convert_message_stop:
  "convert_stream_chunk st message_stop =
     (if st (JStr ''default'') = Some True
      then Inr (st(JStr ''default'' := None),
                \<lparr>chunk_message_id = JStr ''default'',
                 choices = [content_choice (JStr think_close), stop_choice]\<rparr>)
      else Inr (st(JStr ''default'' := None),
                \<lparr>chunk_message_id = JStr ''default'', choices = [stop_choice]\<rparr>))"
  by (auto simp: Let_def convert_stream_chunk_def message_stop_def get_or_def split: option.splits)

lemmas convert_event =
  convert_message_start convert_thinking_start convert_text_start convert_thinking_delta
  convert_text_delta convert_block_stop convert_message_delta convert_message_stop

text \<open>
  C6.  The code misses the second half of the claim.  The key of the thinking state is
  \<^verbatim>\<open>claude_chunk.get('message', {}).get('id', 'default')\<close>, and only
  \<^verbatim>\<open>message_start\<close> carries a message: every later event of every stream reads and
  writes the one key \<^verbatim>\<open>default\<close>.  On the two interleaved streams above, the text block
  of stream 1 finds the thinking flag that stream 0 set: the client of stream 1 receives a
  closing bracket it never had an opening for, and the client of stream 0 receives its
  opening bracket and no closing one.
\<close>

theorem interleaved_streams_share_state:
  "\<exists>st chunks. convert_interleaved Map.empty interleaved_streams = Inr (st, chunks)
     \<and> content_text (stream_output 0 chunks) = ''<think>plananswer''
     \<and> content_text (stream_output 1 chunks) = think_close_nl @ ''hi''"
  by (simp add: interleaved_streams_def convert_event content_text_def stream_output_def
      choice_text_def content_choice_def role_choice_def stop_choice_def think_open_def)

text \<open>
  The first half of the claim holds for a stream that runs alone.  From any state of the
  dictionary, a message with one thinking block and one text block gives the client exactly
  one opening bracket, the thinking text, one closing bracket and the answer.
\<close>

lemma convert_interleaved_append:
  "convert_interleaved st (xs @ ys) =
     (case convert_interleaved st xs of
        Inl e \<Rightarrow> Inl e
      | Inr (st1, c1) \<Rightarrow>
          (case convert_interleaved st1 ys of
             Inl e \<Rightarrow> Inl e
           | Inr (st2, c2) \<Rightarrow> Inr (st2, c1 @ c2)))"
  by (induction xs arbitrary: st) (auto split: sum.splits prod.splits)

lemma convert_thinking_deltas:
  "convert_interleaved st (map (Pair k \<circ> thinking_delta i) ts) =
     Inr (st, map (\<lambda>s. (k, \<lparr>chunk_message_id = JStr ''default'',
                            choices = [content_choice (JStr s)]\<rparr>)) ts)"
  by (induction ts) (simp_all add: convert_thinking_delta)

lemma convert_text_deltas:
  "convert_interleaved st (map (Pair k \<circ> text_delta i) ts) =
     Inr (st, map (\<lambda>s. (k, \<lparr>chunk_message_id = JStr ''default'',
                            choices = [content_choice (JStr s)]\<rparr>)) ts)"
  by (induction ts) (simp_all add: convert_text_delta)

lemma choice_text_simps:
  "choice_text \<lparr>delta_role = r, delta_content = Some (JStr s), finish_reason = f\<rparr> = s"
  "choice_text \<lparr>delta_role = r, delta_content = None, finish_reason = f\<rparr> = []"
  by (simp_all add: choice_text_def)

lemma content_concat_deltas:
  "concat (map ((\<lambda>ch. concat (map choice_text (choices ch))) \<circ>
       (snd \<circ> (\<lambda>s. (k, \<lparr>chunk_message_id = m,
          choices = [\<lparr>delta_role = None, delta_content = Some (JStr s),
                      finish_reason = None\<rparr>]\<rparr>)))) ts) = concat ts"
  by (induction ts) (simp_all add: choice_text_simps)

lemma single_stream_brackets:
  "\<exists>st' chunks. convert_stream st (thinking_message mid thoughts texts) = Inr (st', chunks)
     \<and> content_text chunks = think_open @ concat thoughts @ think_close_nl @ concat texts"
proof -
  let ?d = "\<lambda>ts. map (\<lambda>s. (0::nat, \<lparr>chunk_message_id = JStr ''default'',
                            choices = [content_choice (JStr s)]\<rparr>)) ts"
  have "convert_interleaved st (map (Pair 0) (thinking_message mid thoughts texts)) =
      Inr ((st(JStr mid \<mapsto> False))(JStr ''default'' := None),
        [(0, \<lparr>chunk_message_id = JStr mid, choices = [role_choice]\<rparr>),
         (0, \<lparr>chunk_message_id = JStr ''default'', choices = [content_choice (JStr think_open)]\<rparr>)]
        @ ?d thoughts
        @ [(0, \<lparr>chunk_message_id = JStr ''default'', choices = []\<rparr>),
           (0, \<lparr>chunk_message_id = JStr ''default'',
               choices = [content_choice (JStr think_close_nl)]\<rparr>)]
        @ ?d texts
        @ [(0, \<lparr>chunk_message_id = JStr ''default'', choices = []\<rparr>),
           (0, \<lparr>chunk_message_id = JStr ''default'', choices = []\<rparr>),
           (0, \<lparr>chunk_message_id = JStr ''default'', choices = [stop_choice]\<rparr>)])"
    by (simp add: thinking_message_def convert_interleaved_append convert_thinking_deltas
        convert_text_deltas convert_event)
  then show ?thesis
    by (simp add: convert_stream_def content_text_def content_choice_def role_choice_def
        stop_choice_def content_concat_deltas choice_text_simps)
qed

section \<open>Theorems: selector\<close>

lemma available_cong:
  "configs a = configs b \<Longrightarrow> api_status a = api_status b \<Longrightarrow> available clk a i = available clk b i"
  by (simp add: available_def is_api_available_def Let_def split: option.splits)

lemma frame_refl: "frame clk st st"
  by (simp add: frame_def)

lemma frame_trans: "frame clk a b \<Longrightarrow> frame clk b c \<Longrightarrow> frame clk a c"
  by (simp add: frame_def)

lemma is_api_available_frame: "frame clk st (snd (is_api_available clk st i))"
  by (auto simp: frame_def available_def is_api_available_def Let_def split: option.splits)

lemma frame_available: "frame clk st st' \<Longrightarrow> available clk st' = available clk st"
  by (auto simp: frame_def)

lemma filter_available_fst:
  "fst (filter_available clk st xs) = filter (available clk st) xs"
proof (induction xs arbitrary: st)
  case Nil
  show ?case by simp
next
  case (Cons i rest)
  obtain ok st1 where e: "is_api_available clk st i = (ok, st1)"
    by (cases "is_api_available clk st i")
  have f: "frame clk st st1"
    using is_api_available_frame [of clk st i] e by simp
  have ok: "ok = available clk st i"
    using e by (simp add: available_def)
  show ?case
    using Cons [of st1] frame_available [OF f] e ok
    by (simp add: case_prod_beta)
qed

lemma filter_available_frame: "frame clk st (snd (filter_available clk st xs))"
proof (induction xs arbitrary: st)
  case Nil
  show ?case by (simp add: frame_refl)
next
  case (Cons i rest)
  obtain ok st1 where e: "is_api_available clk st i = (ok, st1)"
    by (cases "is_api_available clk st i")
  have f: "frame clk st st1"
    using is_api_available_frame [of clk st i] e by simp
  have "frame clk st1 (snd (filter_available clk st1 rest))"
    by (rule Cons)
  with f have "frame clk st (snd (filter_available clk st1 rest))"
    by (rule frame_trans)
  then show ?case
    using e by (simp add: case_prod_beta)
qed

lemma first_available_fst:
  "fst (first_available clk st xs) = find (available clk st) xs"
proof (induction xs arbitrary: st)
  case Nil
  show ?case by simp
next
  case (Cons i rest)
  obtain ok st1 where e: "is_api_available clk st i = (ok, st1)"
    by (cases "is_api_available clk st i")
  have f: "frame clk st st1"
    using is_api_available_frame [of clk st i] e by simp
  have ok: "ok = available clk st i"
    using e by (simp add: available_def)
  show ?case
    using Cons [of st1] frame_available [OF f] e ok
    by simp
qed

lemma first_available_frame: "frame clk st (snd (first_available clk st xs))"
proof (induction xs arbitrary: st)
  case Nil
  show ?case by (simp add: frame_refl)
next
  case (Cons i rest)
  obtain ok st1 where e: "is_api_available clk st i = (ok, st1)"
    by (cases "is_api_available clk st i")
  have f: "frame clk st st1"
    using is_api_available_frame [of clk st i] e by simp
  have "frame clk st1 (snd (first_available clk st1 rest))"
    by (rule Cons)
  with f have "frame clk st (snd (first_available clk st1 rest))"
    by (rule frame_trans)
  with f show ?case
    using e by simp
qed

lemma available_same:
  "configs a = configs b \<Longrightarrow> api_status a = api_status b \<Longrightarrow> available clk a = available clk b"
  by (rule ext) (rule available_cong)

text \<open>
  What a selection computes, in terms of the availability of the entries when it starts: the
  available primaries \<open>ap\<close> in configuration order and the first available backup \<open>fb\<close>.
\<close>

lemma select_entry_result:
  assumes sel: "select_entry stamp s clk bs st = (r, st')"
  defines "ap \<equiv> filter (available clk st) (get_primary_indices (configs st))"
    and "fb \<equiv> find (available clk st) bs"
  shows "configs st' = configs st \<and> available clk st' = available clk st
     \<and> r = py_index (configs st) (current_config_index st')
     \<and> (current_config_index st', is_using_backup st') =
         (if is_using_backup st then
            (if probe_due s clk st \<and> ap \<noteq> [] then (int (hd ap), False)
             else (case fb of Some b \<Rightarrow> (int b, True)
                   | None \<Rightarrow> (current_config_index st, True)))
          else if ap \<noteq> [] then (int (hd ap), False)
          else (case fb of Some b \<Rightarrow> (int b, True)
                | None \<Rightarrow> (current_config_index st, False)))"
proof -
  obtain st2 where fa: "filter_available clk st (get_primary_indices (configs st)) = (ap, st2)"
    using filter_available_fst [of clk st "get_primary_indices (configs st)"]
    by (cases "filter_available clk st (get_primary_indices (configs st))") (simp add: ap_def)
  have f2: "frame clk st st2"
    using filter_available_frame [of clk st "get_primary_indices (configs st)"] fa by simp
  have a2: "available clk st2 = available clk st"
    using f2 by (rule frame_available)
  have due: "probe_due s clk st =
      (case last_primary_check_time st2 of None \<Rightarrow> True
       | Some t \<Rightarrow> clk_now clk - t \<ge> get_primary_api_check_interval s)"
    using f2 by (simp add: probe_due_def frame_def)
  show ?thesis
  proof (cases "is_using_backup st")
    case True
    then have u2: "is_using_backup st2" using f2 by (simp add: frame_def)
    show ?thesis
    proof (cases "probe_due s clk st \<and> ap \<noteq> []")
      case T: True
      define st3 where "st3 = st2\<lparr>is_using_backup := False, backup_start_time := None,
                                   last_primary_check_time := None,
                                   current_config_index := int (hd ap)\<rparr>"
      from sel fa u2 T due have s': "st' = (if stamp
              then st3\<lparr>last_primary_switch_time := clk_now clk\<rparr> else st3)"
        and r': "r = py_index (configs st2) (int (hd ap))"
        by (auto simp: select_entry_def Let_def st3_def split: if_splits)
      have "available clk st' = available clk st2"
        by (rule available_same) (simp_all add: s' st3_def)
      then show ?thesis
        using True T a2 f2 r' by (simp add: s' st3_def frame_def)
    next
      case F: False
      define st3 where "st3 = (if probe_due s clk st
                               then st2\<lparr>last_primary_check_time := Some (clk_now clk)\<rparr> else st2)"
      have a3: "available clk st3 = available clk st"
        using a2 available_same [of st3 st2 clk] by (simp add: st3_def)
      obtain st4 where fe: "first_available clk st3 bs = (fb, st4)"
        using first_available_fst [of clk st3 bs] a3
        by (cases "first_available clk st3 bs") (simp add: fb_def)
      have f4: "frame clk st3 st4"
        using first_available_frame [of clk st3 bs] fe by simp
      have a4: "available clk st4 = available clk st"
        using frame_available [OF f4] a3 by simp
      have c4: "configs st4 = configs st" "current_config_index st4 = current_config_index st"
        using f4 f2 by (simp_all add: frame_def st3_def)
      have r: "(r, st') =
         (case fb of
            Some backup_idx \<Rightarrow>
              (let st5 = (if current_config_index st4 \<noteq> int backup_idx
                          then st4\<lparr>backup_start_time := Some (clk_now clk),
                                  last_primary_check_time := None\<rparr>
                          else st4);
                   st6 = st5\<lparr>current_config_index := int backup_idx, is_using_backup := True\<rparr>
               in (py_index (configs st6) (current_config_index st6), st6))
          | None \<Rightarrow> (py_index (configs st4) (current_config_index st4), st4))"
        using sel fa u2 F fe due
        by (auto simp: select_entry_def Let_def st3_def split: option.splits)
      have u4: "is_using_backup st4"
        using f4 u2 by (simp add: frame_def st3_def)
      show ?thesis
      proof (cases fb)
        case None
        with r have "r = py_index (configs st4) (current_config_index st4)" "st' = st4"
          by simp_all
        then show ?thesis
          using None True F a4 c4 u4 by simp
      next
        case (Some b)
        with r have r': "r = py_index (configs st4) (int b)"
          and s': "st' = (if current_config_index st4 \<noteq> int b
                          then st4\<lparr>backup_start_time := Some (clk_now clk),
                                  last_primary_check_time := None\<rparr>
                          else st4)\<lparr>current_config_index := int b, is_using_backup := True\<rparr>"
          by (simp_all add: Let_def)
        have "available clk st' = available clk st4"
          by (rule available_same) (simp_all add: s')
        then show ?thesis
          using Some True F a4 c4 r' by (simp add: s')
      qed
    qed
  next
    case False
    then have u2: "\<not> is_using_backup st2" using f2 by (simp add: frame_def)
    show ?thesis
    proof (cases "ap \<noteq> []")
      case T: True
      from sel fa u2 T have r': "r = py_index (configs st2) (int (hd ap))"
        and s': "st' = (if stamp \<and> current_config_index st2 \<noteq> int (hd ap)
                        then st2\<lparr>last_primary_switch_time := clk_now clk\<rparr> else st2)
                   \<lparr>is_using_backup := False, backup_start_time := None,
                    last_primary_check_time := None, current_config_index := int (hd ap)\<rparr>"
        by (auto simp: select_entry_def Let_def split: if_splits)
      have "available clk st' = available clk st2"
        by (rule available_same) (simp_all add: s')
      then show ?thesis
        using False T a2 f2 r' by (simp add: s' frame_def)
    next
      case F: False
      obtain st4 where fe: "first_available clk st2 bs = (fb, st4)"
        using first_available_fst [of clk st2 bs] a2
        by (cases "first_available clk st2 bs") (simp add: fb_def)
      have f4: "frame clk st2 st4"
        using first_available_frame [of clk st2 bs] fe by simp
      have a4: "available clk st4 = available clk st"
        using frame_available [OF f4] a2 by simp
      have c4: "configs st4 = configs st" "current_config_index st4 = current_config_index st"
        "is_using_backup st4 = False"
        using f4 f2 False by (simp_all add: frame_def)
      show ?thesis
      proof (cases fb)
        case None
        with sel fa u2 F fe have "r = py_index (configs st4) (current_config_index st4)" "st' = st4"
          by (auto simp: select_entry_def Let_def split: if_splits)
        then show ?thesis
          using None False F a4 c4 by simp
      next
        case (Some b)
        with sel fa u2 F fe have r': "r = py_index (configs st4) (int b)"
          and s': "st' = (if stamp \<and> (current_config_index st4 \<noteq> int b \<or> \<not> is_using_backup st4)
                          then st4\<lparr>last_primary_switch_time := clk_now clk\<rparr> else st4)
                     \<lparr>is_using_backup := True, backup_start_time := Some (clk_now clk),
                      last_primary_check_time := None, current_config_index := int b\<rparr>"
          by (auto simp: select_entry_def Let_def split: if_splits)
        have "available clk st' = available clk st4"
          by (rule available_same) (simp_all add: s')
        then show ?thesis
          using Some False F a4 c4 r' by (simp add: s')
      qed
    qed
  qed
qed

lemma primary_indices_bound: "i \<in> set (get_primary_indices cs) \<Longrightarrow> i < length cs"
  by (simp add: get_primary_indices_def)

lemma backup_indices_bound: "i \<in> set (get_backup_indices cs) \<Longrightarrow> i < length cs"
  by (simp add: get_backup_indices_def)

lemma codex_backup_indices_bound: "i \<in> set (get_codex_backup_api_indices cs) \<Longrightarrow> i < length cs"
  by (auto simp: get_codex_backup_api_indices_def Let_def backup_indices_bound split: if_splits)

lemma available_bound: "available clk st i \<Longrightarrow> i < length (configs st)"
  by (auto simp: available_def is_api_available_def split: if_splits)

lemma find_available_bound:
  "find (available clk st) bs = Some b \<Longrightarrow> b < length (configs st)"
  by (auto simp: find_Some_iff intro: available_bound)





lemma select_entry_backup_flag:
  assumes sel: "select_entry stamp s clk bs st = (r, st')"
    and pre: "\<not> is_using_backup st \<or> probe_due s clk st"
    and av: "primary_available clk st'"
  shows "\<not> is_using_backup st'"
proof -
  note res = select_entry_result [OF sel]
  from av res have "list_ex (available clk st) (get_primary_indices (configs st))"
    by (simp add: primary_available_def)
  then have "filter (available clk st) (get_primary_indices (configs st)) \<noteq> []"
    by (simp add: list_ex_iff filter_empty_conv)
  with res pre show ?thesis
    by (auto split: if_splits)
qed

text \<open>The two blocks that bring the index into range.\<close>

lemma find_primary_api_for_time_props:
  assumes "find_primary_api_for_time clk st = (found, st1)"
  shows "frame clk st st1"
    and "\<And>p. found = Some p \<Longrightarrow> p < length (configs st)"
proof -
  let ?ps = "get_primary_indices (configs st)"
  obtain fo st2 where fe: "first_available clk st ?ps = (fo, st2)"
    by (cases "first_available clk st ?ps")
  have f2: "frame clk st st2"
    using first_available_frame [of clk st ?ps] fe by simp
  have fo: "fo = find (available clk st) ?ps"
    using first_available_fst [of clk st ?ps] fe by simp
  show "frame clk st st1"
    using assms fe f2
    by (auto simp: find_primary_api_for_time_def Let_def frame_refl split: if_splits option.splits)
  show "\<And>p. found = Some p \<Longrightarrow> p < length (configs st)"
  proof -
    fix p assume p: "found = Some p"
    show "p < length (configs st)"
    proof (cases "?ps = []")
      case True
      with assms p show ?thesis by (simp add: find_primary_api_for_time_def)
    next
      case False
      then have h: "hd ?ps < length (configs st)"
        using hd_in_set [OF False] by (simp add: primary_indices_bound)
      from assms p fe False fo h show ?thesis
        by (auto simp: find_primary_api_for_time_def Let_def split: option.splits
            dest: find_available_bound)
    qed
  qed
qed

lemma ensure_current_api_index_props:
  assumes ne: "configs st \<noteq> []"
  shows "configs (ensure_current_api_index clk True st) = configs st"
    and "available clk (ensure_current_api_index clk True st) = available clk st"
    and "\<not> index_out_of_range (ensure_current_api_index clk True st)"
    and "\<not> is_using_backup (ensure_current_api_index clk True st)"
proof -
  obtain found st1 where fp: "find_primary_api_for_time clk st = (found, st1)"
    by (cases "find_primary_api_for_time clk st")
  note pr = find_primary_api_for_time_props [OF fp]
  have c1: "configs st1 = configs st" using pr(1) by (simp add: frame_def)
  have a1: "available clk st1 = available clk st" using pr(1) by (rule frame_available)
  define preferred where "preferred = (case found of None \<Rightarrow> 0 | Some p \<Rightarrow> int p)"
  have p: "0 \<le> preferred \<and> preferred < int (length (configs st))"
    using pr(2) ne by (cases found) (simp_all add: preferred_def)
  have e: "ensure_current_api_index clk True st =
             st1\<lparr>current_config_index := preferred, is_using_backup := False,
                 backup_start_time := None, last_primary_check_time := None,
                 last_primary_switch_time := clk_now clk\<rparr>"
    using ne fp p c1 by (simp add: ensure_current_api_index_def Let_def preferred_def)
  show "configs (ensure_current_api_index clk True st) = configs st"
    by (simp add: e c1)
  have "available clk (ensure_current_api_index clk True st) = available clk st1"
    by (rule available_same) (simp_all add: e)
  then show "available clk (ensure_current_api_index clk True st) = available clk st"
    by (simp add: a1)
  show "\<not> index_out_of_range (ensure_current_api_index clk True st)"
    using p by (simp add: e c1 index_out_of_range_def)
  show "\<not> is_using_backup (ensure_current_api_index clk True st)"
    by (simp add: e)
qed

lemma normalize_api_index_props:
  assumes ne: "configs st \<noteq> []"
  shows "configs (normalize_api_index clk st) = configs st"
    and "available clk (normalize_api_index clk st) = available clk st"
    and "\<not> index_out_of_range (normalize_api_index clk st)"
    and "index_out_of_range st \<Longrightarrow> \<not> is_using_backup (normalize_api_index clk st)"
    and "\<not> index_out_of_range st \<Longrightarrow> normalize_api_index clk st = st"
  using ensure_current_api_index_props [OF ne, of clk]
  by (simp_all add: normalize_api_index_def Let_def)

lemma normalize_codex_index_props:
  assumes ne: "configs st \<noteq> []"
  shows "configs (normalize_codex_index clk st) = configs st"
    and "available clk (normalize_codex_index clk st) = available clk st"
    and "\<not> index_out_of_range (normalize_codex_index clk st)"
    and "is_using_backup (normalize_codex_index clk st) = is_using_backup st"
    and "last_primary_check_time (normalize_codex_index clk st) = last_primary_check_time st"
    and "\<not> index_out_of_range st \<Longrightarrow> normalize_codex_index clk st = st"
proof -
  let ?ps = "get_primary_indices (configs st)"
  obtain fo st2 where fe: "first_available clk st ?ps = (fo, st2)"
    by (cases "first_available clk st ?ps")
  have f2: "frame clk st st2"
    using first_available_frame [of clk st ?ps] fe by simp
  have fo: "fo = find (available clk st) ?ps"
    using first_available_fst [of clk st ?ps] fe by simp
  have c2: "configs st2 = configs st" using f2 by (simp add: frame_def)
  have a2: "available clk st2 = available clk st" using f2 by (rule frame_available)
  define j where "j = (case fo of Some p \<Rightarrow> int p
                       | None \<Rightarrow> if ?ps \<noteq> [] then int (hd ?ps) else 0)"
  have j: "0 \<le> j \<and> j < int (length (configs st))"
  proof (cases fo)
    case (Some p)
    with fo have "find (available clk st) ?ps = Some p" by simp
    then have "p < length (configs st)" by (rule find_available_bound)
    with Some show ?thesis by (simp add: j_def)
  next
    case None
    show ?thesis
    proof (cases "?ps = []")
      case True
      with None ne show ?thesis by (simp add: j_def)
    next
      case False
      then have "hd ?ps < length (configs st)"
        using hd_in_set [OF False] by (simp add: primary_indices_bound)
      with None False show ?thesis by (simp add: j_def)
    qed
  qed
  have e: "normalize_codex_index clk st =
             (if index_out_of_range st then st2\<lparr>current_config_index := j\<rparr> else st)"
    using fe by (auto simp: normalize_codex_index_def Let_def j_def split: option.splits)
  show "configs (normalize_codex_index clk st) = configs st"
    by (simp add: e c2)
  have "available clk (st2\<lparr>current_config_index := j\<rparr>) = available clk st2"
    by (rule available_same) simp_all
  then show "available clk (normalize_codex_index clk st) = available clk st"
    by (simp add: e a2)
  show "\<not> index_out_of_range (normalize_codex_index clk st)"
    using j by (simp add: e c2 index_out_of_range_def)
  show "is_using_backup (normalize_codex_index clk st) = is_using_backup st"
    using f2 by (simp add: e frame_def)
  show "last_primary_check_time (normalize_codex_index clk st) = last_primary_check_time st"
    using f2 by (simp add: e frame_def)
  show "\<not> index_out_of_range st \<Longrightarrow> normalize_codex_index clk st = st"
    by (simp add: e)
qed

text \<open>
  A selector that selects runs \<open>select_entry\<close> on a state whose index is in range, with the
  same entries and the same availability as the state it was called on.
\<close>

lemma selector_selects:
  assumes ne: "configs st \<noteq> []" and one: "\<not> pool_of_one k st"
  shows "\<exists>stamp bs st1. selector k s clk st = select_entry stamp s clk bs st1
           \<and> configs st1 = configs st \<and> available clk st1 = available clk st
           \<and> \<not> index_out_of_range st1
           \<and> (\<not> index_out_of_range st \<longrightarrow> st1 = st)
           \<and> (\<not> is_using_backup st \<or> probe_due s clk st
                \<longrightarrow> \<not> is_using_backup st1 \<or> probe_due s clk st1)"
proof (cases k)
  case Messages
  let ?st1 = "normalize_api_index clk st"
  note n = normalize_api_index_props [OF ne, of clk]
  have "\<not> is_using_backup st \<or> probe_due s clk st
          \<longrightarrow> \<not> is_using_backup ?st1 \<or> probe_due s clk ?st1"
    using n(4) n(5) by (cases "index_out_of_range st") auto
  with n Messages ne show ?thesis
    by (auto simp: get_current_config_def Let_def)
next
  case Responses
  let ?st1 = "normalize_codex_index clk st"
  note n = normalize_codex_index_props [OF ne, of clk]
  have "probe_due s clk ?st1 = probe_due s clk st"
    using n(5) by (simp add: probe_due_def)
  with n Responses ne one show ?thesis
    by (auto simp: get_current_codex_config_def Let_def pool_of_one_def)
qed


lemma selector_preserves:
  "configs (snd (selector k s clk st)) = configs st
   \<and> available clk (snd (selector k s clk st)) = available clk st"
proof (cases "configs st = [] \<or> pool_of_one k st")
  case True
  then show ?thesis
    by (cases k) (auto simp: get_current_config_def get_current_codex_config_def pool_of_one_def)
next
  case False
  then obtain stamp bs st1 where
    e: "selector k s clk st = select_entry stamp s clk bs st1"
    and c: "configs st1 = configs st" and a: "available clk st1 = available clk st"
    using selector_selects [of st k s clk] by blast
  obtain r st' where sel: "select_entry stamp s clk bs st1 = (r, st')"
    by (cases "select_entry stamp s clk bs st1")
  from select_entry_result [OF sel] c a e sel show ?thesis by simp
qed




text \<open>A pool on backup whose probe is not due stays on backup.\<close>

lemma select_entry_stays_on_backup:
  assumes sel: "select_entry stamp s clk bs st = (r, st')"
    and "is_using_backup st" and "\<not> probe_due s clk st"
  shows "is_using_backup st'"
  using select_entry_result [OF sel] assms(2,3)
  by (cases "find (available clk st) bs") auto

text \<open>
  C2, as the claim states it, fails.  While the pool is on backup the primaries are probed
  only when the last probe is at least the check interval (30 seconds by default) ago.  A
  selection at time 1000 after a probe at time 990 walks the backups, keeps backup \<open>B\<close> and
  leaves the pool marked as on backup, although primary \<open>A\<close> is available.
\<close>

theorem backup_flag_counterexample:
  "primary_available ex_clock (snd (selector Messages ex_settings ex_clock (pool_on_backup (Some 990))))
   \<and> is_using_backup (snd (selector Messages ex_settings ex_clock (pool_on_backup (Some 990))))"
proof -
  let ?st = "pool_on_backup (Some 990)"
  have h: "configs ?st \<noteq> []" "\<not> index_out_of_range ?st" "is_using_backup ?st"
    "\<not> probe_due ex_settings ex_clock ?st"
    by (simp_all add: pool_on_backup_def ex_pool_def index_out_of_range_def probe_due_def
        ex_clock_def ex_settings_def get_primary_api_check_interval_def)
  have av: "primary_available ex_clock ?st"
    by (simp add: primary_available_def pool_on_backup_def ex_pool_def available_def
        is_api_available_def ex_cfg_def ex_clock_def get_primary_indices_def init_status_dict_def
        fresh_status_def upt_rec Let_def)
  have e: "selector Messages ex_settings ex_clock ?st
             = select_entry True ex_settings ex_clock (get_backup_indices (configs ?st)) ?st"
    using h(1,2) by (simp add: get_current_config_def normalize_api_index_def Let_def)
  obtain r st' where sel: "selector Messages ex_settings ex_clock ?st = (r, st')"
    by (cases "selector Messages ex_settings ex_clock ?st")
  have u: "is_using_backup st'"
    using select_entry_stays_on_backup [OF sel [unfolded e] h(3,4)] .
  have "primary_available ex_clock st'"
    using selector_preserves [of Messages ex_settings ex_clock ?st] av sel
    by (simp add: primary_available_def)
  with u sel show ?thesis by simp
qed

text \<open>
  C2, amended.  After a selection on a pool that is not empty (and, for the responses pool,
  has more than one entry): if the pool was not on backup when the selection started, or the
  probe of the primaries was due (no probe yet, or the last one at least the check interval
  ago), and a primary entry is available, then the pool is not marked as on backup.
\<close>

theorem backup_flag_after_selection:
  assumes sel: "selector k s clk st = (r, st')"
    and ne: "configs st \<noteq> []" and one: "\<not> pool_of_one k st"
    and pre: "\<not> is_using_backup st \<or> probe_due s clk st"
    and av: "primary_available clk st'"
  shows "\<not> is_using_backup st'"
proof -
  obtain stamp bs st1 where
    e: "selector k s clk st = select_entry stamp s clk bs st1"
    and p1: "\<not> is_using_backup st \<or> probe_due s clk st
               \<longrightarrow> \<not> is_using_backup st1 \<or> probe_due s clk st1"
    using selector_selects [OF ne one, of s clk] by blast
  from sel e have sel1: "select_entry stamp s clk bs st1 = (r, st')" by simp
  from p1 pre have "\<not> is_using_backup st1 \<or> probe_due s clk st1" by simp
  from select_entry_backup_flag [OF sel1 this av] show ?thesis .
qed

text \<open>
  Witness for the amended C2: the same pool on backup with no probe made yet.  The probe is
  due, primary \<open>A\<close> is available, and the selection clears the backup flag.
\<close>

theorem backup_flag_witness:
  "primary_available ex_clock (snd (selector Messages ex_settings ex_clock (pool_on_backup None)))
   \<and> \<not> is_using_backup (snd (selector Messages ex_settings ex_clock (pool_on_backup None)))"
proof -
  let ?st = "pool_on_backup None"
  have h: "configs ?st \<noteq> []" "\<not> pool_of_one Messages ?st"
    "\<not> is_using_backup ?st \<or> probe_due ex_settings ex_clock ?st"
    by (simp_all add: pool_on_backup_def ex_pool_def pool_of_one_def probe_due_def)
  have av: "primary_available ex_clock ?st"
    by (simp add: primary_available_def pool_on_backup_def ex_pool_def available_def
        is_api_available_def ex_cfg_def ex_clock_def get_primary_indices_def init_status_dict_def
        fresh_status_def upt_rec Let_def)
  obtain r st' where sel: "selector Messages ex_settings ex_clock ?st = (r, st')"
    by (cases "selector Messages ex_settings ex_clock ?st")
  have av': "primary_available ex_clock st'"
    using selector_preserves [of Messages ex_settings ex_clock ?st] av sel
    by (simp add: primary_available_def)
  from backup_flag_after_selection [OF sel h av'] av' sel show ?thesis by simp
qed

text \<open>The availability check keeps the invariant of the status records.\<close>

lemma is_api_available_ok:
  "status_dict_ok (api_status st) \<Longrightarrow>
     status_dict_ok (api_status (snd (is_api_available clk st i)))"
  by (auto simp: is_api_available_def Let_def status_dict_ok_upd status_rec_ok_def
      split: option.splits)

section \<open>Theorems: the strategy-retry path\<close>















end
